theory Spec2Isabelle
  imports Complex_Main "HOL-Library.Sublist"
begin

section \<open>JavaScript strings\<close>

text \<open>
  A JavaScript string is modelled as a list of 8-bit code units (the range U+0000 to
  U+00FF); code units above that range are outside the model. The functions below are the
  string methods the service calls: \<^verbatim>\<open>trim\<close>, \<^verbatim>\<open>toLowerCase\<close>, \<^verbatim>\<open>includes\<close>
  and the decimal rendering of a non-negative integer in a template literal.
\<close>

definition isWhiteSpace :: "char \<Rightarrow> bool" where
  \<comment> \<open>WhiteSpace and LineTerminator code units below U+0100: TAB, LF, VT, FF, CR, SP, NBSP.\<close>
  "isWhiteSpace c = (c \<in> {CHR 0x09, CHR 0x0A, CHR 0x0B, CHR 0x0C, CHR 0x0D, CHR 0x20, CHR 0xA0})"

definition trim :: "string \<Rightarrow> string" where
  "trim s = rev (dropWhile isWhiteSpace (rev (dropWhile isWhiteSpace s)))"

definition toLowerCase_char :: "char \<Rightarrow> char" where
  \<comment> \<open>A to Z, and the Latin-1 capitals U+00C0 to U+00DE without the multiplication sign.\<close>
  "toLowerCase_char c =
     (let n = (of_char c :: nat)
      in if (65 \<le> n \<and> n \<le> 90) \<or> (192 \<le> n \<and> n \<le> 222 \<and> n \<noteq> 215)
         then char_of (n + 32) else c)"

definition toLowerCase :: "string \<Rightarrow> string" where
  "toLowerCase s = map toLowerCase_char s"

fun str_includes :: "string \<Rightarrow> string \<Rightarrow> bool" where
  \<comment> \<open>\<^verbatim>\<open>s.includes(sub)\<close>: \<open>sub\<close> occurs in \<open>s\<close> as a contiguous block.\<close>
  "str_includes [] sub = (sub = [])"
| "str_includes (c # cs) sub = (prefix sub (c # cs) \<or> str_includes cs sub)"

definition digit_char :: "nat \<Rightarrow> char" where
  "digit_char d = ''0123456789'' ! (d mod 10)"

fun show_nat :: "nat \<Rightarrow> string" where
  "show_nat n = (if n < 10 then [digit_char n] else show_nat (n div 10) @ [digit_char (n mod 10)])"

declare show_nat.simps [simp del]

section \<open>Error classifier\<close>

text \<open>
  An error object as the service reads it: \<^verbatim>\<open>name\<close> and \<^verbatim>\<open>message\<close> are strings (every
  \<^verbatim>\<open>Error\<close> instance has them), \<^verbatim>\<open>status\<close> and \<^verbatim>\<open>statusCode\<close> are numbers or absent.
\<close>

record js_error =
  name :: string
  message :: string
  status :: "int option"
  statusCode :: "int option"

definition newError :: "string \<Rightarrow> js_error" where
  \<comment> \<open>\<^verbatim>\<open>new Error(msg)\<close>\<close>
  "newError msg = \<lparr> name = ''Error'', message = msg, status = None, statusCode = None \<rparr>"

definition errorToString :: "js_error \<Rightarrow> string" where
  \<comment> \<open>\<^verbatim>\<open>Error.prototype.toString\<close>\<close>
  "errorToString e =
     (if name e = [] then message e
      else if message e = [] then name e
      else name e @ '': '' @ message e)"

datatype error_type =
  NETWORK_ERROR | AUTH_ERROR | RATE_LIMIT_ERROR | TIMEOUT_ERROR
| SERVER_ERROR | INVALID_REQUEST_ERROR | UNKNOWN_ERROR

record error_info =
  type :: error_type
  isNetworkError :: bool
  isRetryable :: bool
  suggestedAction :: string

definition analyzeError :: "js_error \<Rightarrow> error_info" where
  "analyzeError error =
     (let errorMessage = toLowerCase (message error);
          errorString = toLowerCase (errorToString error)
      in
      if str_includes errorMessage ''fetch failed'' \<or>
         str_includes errorMessage ''network error'' \<or>
         str_includes errorMessage ''enotfound'' \<or>
         str_includes errorMessage ''econnrefused'' \<or>
         str_includes errorMessage ''econnreset'' \<or>
         str_includes errorMessage ''econnaborted'' \<or>
         str_includes errorMessage ''socket hang up'' \<or>
         str_includes errorMessage ''connection reset'' \<or>
         str_includes errorString ''fetch failed''
      then \<lparr> type = NETWORK_ERROR, isNetworkError = True, isRetryable = True,
             suggestedAction = ''Check internet connection and firewall settings'' \<rparr>
      else if str_includes errorMessage ''unauthorized'' \<or>
         str_includes errorMessage ''invalid api key'' \<or>
         str_includes errorMessage ''forbidden'' \<or>
         str_includes errorMessage ''401'' \<or>
         str_includes errorMessage ''403''
      then \<lparr> type = AUTH_ERROR, isNetworkError = False, isRetryable = False,
             suggestedAction = ''Verify Gemini API key configuration'' \<rparr>
      else if str_includes errorMessage ''quota'' \<or>
         str_includes errorMessage ''rate limit'' \<or>
         str_includes errorMessage ''too many requests'' \<or>
         str_includes errorMessage ''429'' \<or>
         str_includes errorMessage ''resource exhausted''
      then \<lparr> type = RATE_LIMIT_ERROR, isNetworkError = False, isRetryable = True,
             suggestedAction = ''Wait before retrying or check API quota'' \<rparr>
      else if str_includes errorMessage ''request timeout'' \<or>
         str_includes errorMessage ''timeout'' \<or>
         str_includes errorMessage ''timed out''
      then \<lparr> type = TIMEOUT_ERROR, isNetworkError = True, isRetryable = True,
             suggestedAction = ''Check network latency or increase timeout'' \<rparr>
      else if str_includes errorMessage ''500'' \<or>
         str_includes errorMessage ''502'' \<or>
         str_includes errorMessage ''503'' \<or>
         str_includes errorMessage ''504'' \<or>
         str_includes errorMessage ''internal server error'' \<or>
         str_includes errorMessage ''bad gateway'' \<or>
         str_includes errorMessage ''service unavailable''
      then \<lparr> type = SERVER_ERROR, isNetworkError = False, isRetryable = True,
             suggestedAction = ''Server error - will retry automatically'' \<rparr>
      else if str_includes errorMessage ''400'' \<or>
         str_includes errorMessage ''bad request'' \<or>
         str_includes errorMessage ''invalid request''
      then \<lparr> type = INVALID_REQUEST_ERROR, isNetworkError = False, isRetryable = False,
             suggestedAction = ''Check request format and parameters'' \<rparr>
      else \<lparr> type = UNKNOWN_ERROR, isNetworkError = False, isRetryable = True,
             suggestedAction = ''Check logs for more details'' \<rparr>)"

text \<open>
  The classifier's checks written as a table, in the order of the source: each kind with
  the substrings that trigger it. \<open>first_match\<close> returns the kind of the first row with
  a trigger in the message.
\<close>

definition classifier_table :: "(error_type \<times> string list) list" where
  "classifier_table =
    [(NETWORK_ERROR, [''fetch failed'', ''network error'', ''enotfound'', ''econnrefused'',
                      ''econnreset'', ''econnaborted'', ''socket hang up'', ''connection reset'']),
     (AUTH_ERROR, [''unauthorized'', ''invalid api key'', ''forbidden'', ''401'', ''403'']),
     (RATE_LIMIT_ERROR, [''quota'', ''rate limit'', ''too many requests'', ''429'',
                         ''resource exhausted'']),
     (TIMEOUT_ERROR, [''request timeout'', ''timeout'', ''timed out'']),
     (SERVER_ERROR, [''500'', ''502'', ''503'', ''504'', ''internal server error'',
                     ''bad gateway'', ''service unavailable'']),
     (INVALID_REQUEST_ERROR, [''400'', ''bad request'', ''invalid request''])]"

fun first_match :: "(error_type \<times> string list) list \<Rightarrow> string \<Rightarrow> error_type" where
  "first_match [] m = UNKNOWN_ERROR"
| "first_match ((k, subs) # rest) m =
     (if list_ex (str_includes m) subs then k else first_match rest m)"

section \<open>Credential pool\<close>

text \<open>
  The pool is the part of the \<^verbatim>\<open>LLMService\<close> object that credential rotation reads and
  writes: \<^verbatim>\<open>models\<close> (one client per key, here identified by a string),
  \<^verbatim>\<open>currentKeyIndex\<close> and the set \<^verbatim>\<open>exhaustedKeys\<close>. Reading \<^verbatim>\<open>models[i]\<close> out of range
  gives \<^verbatim>\<open>undefined\<close>; \<open>None\<close> stands for both \<^verbatim>\<open>null\<close> and \<^verbatim>\<open>undefined\<close>, which the
  callers do not tell apart (\<^verbatim>\<open>!currentModel\<close>).
\<close>

record llm_service =
  models :: "string list"
  currentKeyIndex :: nat
  exhaustedKeys :: "nat set"

definition at_index :: "'a list \<Rightarrow> nat \<Rightarrow> 'a option" where
  "at_index xs i = (if i < length xs then Some (xs ! i) else None)"

function getNextModel_scan ::
  "nat \<Rightarrow> 'a llm_service_scheme \<Rightarrow> string option \<times> 'a llm_service_scheme" where
  \<comment> \<open>The \<^verbatim>\<open>while (attempts < this.models.length)\<close> loop and the reset after it.\<close>
  "getNextModel_scan attempts s =
     (if attempts < length (models s) then
        (if currentKeyIndex s \<notin> exhaustedKeys s
         then (at_index (models s) (currentKeyIndex s), s)
         else getNextModel_scan (attempts + 1)
                (s\<lparr>currentKeyIndex := (currentKeyIndex s + 1) mod length (models s)\<rparr>))
      else (at_index (models s) 0, s\<lparr>exhaustedKeys := {}, currentKeyIndex := 0\<rparr>))"
  by pat_completeness auto
termination
  by (relation "measure (\<lambda>(attempts, s). length (models s) - attempts)") auto

declare getNextModel_scan.simps [simp del]

definition getNextModel :: "'a llm_service_scheme \<Rightarrow> string option \<times> 'a llm_service_scheme" where
  "getNextModel s =
     (if length (models s) = 0 then (None, s)
      else if length (models s) = 1 then (at_index (models s) 0, s)
      else getNextModel_scan 0 s)"

definition markKeyExhausted :: "nat \<Rightarrow> 'a llm_service_scheme \<Rightarrow> 'a llm_service_scheme" where
  "markKeyExhausted keyIndex s =
     s\<lparr>exhaustedKeys := insert keyIndex (exhaustedKeys s),
       currentKeyIndex := (currentKeyIndex s + 1) mod length (models s)\<rparr>"

section \<open>Credential list from the configuration\<close>

text \<open>
  \<^verbatim>\<open>getApiKeys\<close> reads one environment variable; the model takes the value read:
  \<open>None\<close> when the variable is not set, \<open>Some v\<close> when it holds the string \<open>v\<close>.
\<close>

definition isSeparator :: "char \<Rightarrow> bool" where
  \<comment> \<open>the character class of \<^verbatim>\<open>/[,\n]/\<close>\<close>
  "isSeparator c = (c = CHR '','' \<or> c = CHR 0x0A)"

function js_split :: "string \<Rightarrow> string list" where
  \<comment> \<open>\<^verbatim>\<open>s.split(/[,\n]/)\<close>: the pieces between separators, empty pieces included.\<close>
  "js_split s =
     (case dropWhile (\<lambda>c. \<not> isSeparator c) s of
        [] \<Rightarrow> [takeWhile (\<lambda>c. \<not> isSeparator c) s]
      | sep # rest \<Rightarrow> takeWhile (\<lambda>c. \<not> isSeparator c) s # js_split rest)"
  by pat_completeness auto
termination
proof (relation "measure length")
  fix s :: string and sep rest
  assume "dropWhile (\<lambda>c. \<not> isSeparator c) s = sep # rest"
  then have "length (sep # rest) \<le> length s"
    by (metis length_dropWhile_le)
  then show "(rest, s) \<in> measure length" by simp
qed simp

declare js_split.simps [simp del]

definition getApiKeys :: "string option \<Rightarrow> string list" where
  "getApiKeys apiKeyValue =
     (case apiKeyValue of
        None \<Rightarrow> []
      | Some v \<Rightarrow>
          if v = [] then []
          else filter (\<lambda>key. length key > 0 \<and> key \<noteq> ''your-api-key-here'')
                 (map trim (js_split v)))"

text \<open>
  \<open>join_entries e [(c\<^sub>1, e\<^sub>1), \<dots>]\<close> writes the entries \<open>e, e\<^sub>1, \<dots>\<close> one after the other
  with the character \<open>c\<^sub>i\<close> in front of \<open>e\<^sub>i\<close>: a configuration value as it is typed.
\<close>

fun join_entries :: "string \<Rightarrow> (char \<times> string) list \<Rightarrow> string" where
  "join_entries e [] = e"
| "join_entries e ((c, e') # rest) = e @ c # join_entries e' rest"

section \<open>JavaScript values\<close>

text \<open>
  The values that \<^verbatim>\<open>JSON.parse\<close> returns and that request objects are built from, with
  \<^verbatim>\<open>undefined\<close> for a property that is not there. Numbers are modelled as reals. An
  object is the list of its own properties in insertion order.
\<close>

datatype jsval =
  JUndefined | JNull | JBool bool | JNum real | JStr string
| JArr "jsval list" | JObj "(string \<times> jsval) list"

datatype thrown = TypeError | Thrown js_error

fun truthy :: "jsval \<Rightarrow> bool" where
  "truthy JUndefined = False"
| "truthy JNull = False"
| "truthy (JBool b) = b"
| "truthy (JNum r) = (r \<noteq> 0)"
| "truthy (JStr s) = (s \<noteq> [])"
| "truthy (JArr xs) = True"
| "truthy (JObj kvs) = True"

fun nullish :: "jsval \<Rightarrow> bool" where
  "nullish JUndefined = True"
| "nullish JNull = True"
| "nullish v = False"

fun get :: "jsval \<Rightarrow> string \<Rightarrow> jsval" where
  \<comment> \<open>\<^verbatim>\<open>v.key\<close> for a value \<open>v\<close> that is neither \<^verbatim>\<open>null\<close> nor \<^verbatim>\<open>undefined\<close> and a key that no
      built-in prototype defines: the property of an object, \<^verbatim>\<open>undefined\<close> otherwise.
      On \<^verbatim>\<open>null\<close> and \<^verbatim>\<open>undefined\<close> the access throws; callers check \<open>nullish\<close> first.\<close>
  "get (JObj kvs) key = (case map_of kvs key of Some v \<Rightarrow> v | None \<Rightarrow> JUndefined)"
| "get v key = JUndefined"

fun map_throwing :: "('a \<Rightarrow> thrown + 'b) \<Rightarrow> 'a list \<Rightarrow> thrown + 'b list" where
  \<comment> \<open>\<^verbatim>\<open>xs.map(f)\<close> for a callback that may throw: the first exception ends the map.\<close>
  "map_throwing f [] = Inr []"
| "map_throwing f (x # xs) =
     (case f x of
        Inl e \<Rightarrow> Inl e
      | Inr y \<Rightarrow> (case map_throwing f xs of Inl e \<Rightarrow> Inl e | Inr ys \<Rightarrow> Inr (y # ys)))"

section \<open>Raw transport: payload transform\<close>

definition normalizePart :: "jsval \<Rightarrow> jsval" where
  "normalizePart part =
     (if \<not> truthy part then JObj []
      else case get part ''text'' of
             JStr t \<Rightarrow> JObj [(''text'', JStr t)]
           | _ \<Rightarrow>
               if truthy (get part ''inlineData'') then JObj [(''inline_data'', get part ''inlineData'')]
               else if truthy (get part ''fileData'') then JObj [(''file_data'', get part ''fileData'')]
               else part)"

definition normalizeParts :: "jsval \<Rightarrow> thrown + jsval" where
  \<comment> \<open>\<^verbatim>\<open>(parts || []).map(normalizePart)\<close>: a truthy value that is not an array has no
      \<^verbatim>\<open>map\<close> method.\<close>
  "normalizeParts parts =
     (if \<not> truthy parts then Inr (JArr [])
      else case parts of
             JArr xs \<Rightarrow> Inr (JArr (map normalizePart xs))
           | _ \<Rightarrow> Inl TypeError)"

definition transformContent :: "jsval \<Rightarrow> thrown + jsval" where
  \<comment> \<open>the callback of \<^verbatim>\<open>request.contents.map\<close>\<close>
  "transformContent content =
     (if nullish content then Inl TypeError
      else case normalizeParts (get content ''parts'') of
             Inl e \<Rightarrow> Inl e
           | Inr ps \<Rightarrow> Inr (JObj [(''role'', get content ''role''), (''parts'', ps)]))"

fun indexed :: "nat \<Rightarrow> 'a list \<Rightarrow> (string \<times> 'a) list" where
  "indexed i [] = []"
| "indexed i (x # xs) = (show_nat i, x) # indexed (i + 1) xs"

fun spread :: "jsval \<Rightarrow> (string \<times> jsval) list" where
  \<comment> \<open>\<^verbatim>\<open>{ ...v }\<close>: the own enumerable properties of \<open>v\<close>.\<close>
  "spread (JObj kvs) = kvs"
| "spread (JArr xs) = indexed 0 xs"
| "spread (JStr s) = indexed 0 (map (\<lambda>c. JStr [c]) s)"
| "spread v = []"

definition copyIfTruthy :: "jsval \<Rightarrow> string \<Rightarrow> string \<Rightarrow> (string \<times> jsval) list" where
  \<comment> \<open>\<^verbatim>\<open>if (request.from) { payload.to = request.from; }\<close>\<close>
  "copyIfTruthy request from to =
     (if truthy (get request from) then [(to, get request from)] else [])"

definition transformRequestForHttpTransport :: "jsval \<Rightarrow> thrown + jsval" where
  "transformRequestForHttpTransport request =
     (if nullish request then Inl TypeError
      else
        case (if truthy (get request ''systemInstruction'')
              then (case normalizeParts (get (get request ''systemInstruction'') ''parts'') of
                      Inl e \<Rightarrow> Inl e
                    | Inr ps \<Rightarrow> Inr [(''system_instruction'', JObj [(''parts'', ps)])])
              else Inr []) of
          Inl e \<Rightarrow> Inl e
        | Inr system_instruction \<Rightarrow>
            (case (case get request ''contents'' of
                     JArr cs \<Rightarrow>
                       (case map_throwing transformContent cs of
                          Inl e \<Rightarrow> Inl e
                        | Inr cs' \<Rightarrow> Inr [(''contents'', JArr cs')])
                   | _ \<Rightarrow> Inr []) of
               Inl e \<Rightarrow> Inl e
             | Inr contents \<Rightarrow>
                 Inr (JObj (system_instruction @ contents @
                   (if truthy (get request ''generationConfig'')
                    then [(''generation_config'', JObj (spread (get request ''generationConfig'')))]
                    else []) @
                   copyIfTruthy request ''safetySettings'' ''safety_settings'' @
                   copyIfTruthy request ''tools'' ''tools'' @
                   copyIfTruthy request ''toolConfig'' ''tool_config'' @
                   copyIfTruthy request ''cachedContent'' ''cached_content''))))"

text \<open>
  A Request as the service builds it (\<^verbatim>\<open>buildGeminiRequest\<close> and its siblings): an optional
  system instruction text, the turns in order, each with a role and its parts, and the
  generation parameters. \<open>request_object\<close> is the JavaScript object those builders
  produce for it.
\<close>

datatype role = User | Model

datatype part =
  TextPart string
| InlineDataPart string string
| FileDataPart string string

record turn =
  turn_role :: role
  turn_parts :: "part list"

record generation_config =
  temperature :: real
  maxOutputTokens :: real
  topK :: real
  topP :: real

record request =
  req_systemInstruction :: "string option"
  req_contents :: "turn list"
  req_generationConfig :: generation_config

fun role_name :: "role \<Rightarrow> string" where
  "role_name User = ''user''"
| "role_name Model = ''model''"

fun part_object :: "part \<Rightarrow> jsval" where
  "part_object (TextPart t) = JObj [(''text'', JStr t)]"
| "part_object (InlineDataPart mimeType d) =
     JObj [(''inlineData'', JObj [(''mimeType'', JStr mimeType), (''data'', JStr d)])]"
| "part_object (FileDataPart mimeType uri) =
     JObj [(''fileData'', JObj [(''mimeType'', JStr mimeType), (''fileUri'', JStr uri)])]"

definition turn_object :: "turn \<Rightarrow> jsval" where
  "turn_object t =
     JObj [(''role'', JStr (role_name (turn_role t))),
           (''parts'', JArr (map part_object (turn_parts t)))]"

definition generation_config_properties :: "generation_config \<Rightarrow> (string \<times> jsval) list" where
  "generation_config_properties g =
     [(''temperature'', JNum (temperature g)),
      (''maxOutputTokens'', JNum (maxOutputTokens g)),
      (''topK'', JNum (topK g)),
      (''topP'', JNum (topP g))]"

definition request_object :: "request \<Rightarrow> jsval" where
  "request_object r =
     JObj ([(''contents'', JArr (map turn_object (req_contents r))),
            (''generationConfig'', JObj (generation_config_properties (req_generationConfig r)))] @
           (case req_systemInstruction r of
              None \<Rightarrow> []
            | Some t \<Rightarrow> [(''systemInstruction'', JObj [(''parts'', JArr [JObj [(''text'', JStr t)]])])]))"

text \<open>The wire form of a part and of a turn, and what can be read back from a payload.\<close>

fun wire_part :: "part \<Rightarrow> jsval" where
  "wire_part (TextPart t) = JObj [(''text'', JStr t)]"
| "wire_part (InlineDataPart mimeType d) =
     JObj [(''inline_data'', JObj [(''mimeType'', JStr mimeType), (''data'', JStr d)])]"
| "wire_part (FileDataPart mimeType uri) =
     JObj [(''file_data'', JObj [(''mimeType'', JStr mimeType), (''fileUri'', JStr uri)])]"

definition wire_turn :: "turn \<Rightarrow> jsval" where
  "wire_turn t =
     JObj [(''role'', JStr (role_name (turn_role t))),
           (''parts'', JArr (map wire_part (turn_parts t)))]"

fun elements :: "jsval \<Rightarrow> jsval list" where
  "elements (JArr xs) = xs"
| "elements v = []"

definition payload_roles :: "jsval \<Rightarrow> jsval list" where
  "payload_roles payload = map (\<lambda>c. get c ''role'') (elements (get payload ''contents''))"

definition payload_texts :: "jsval \<Rightarrow> jsval list list" where
  "payload_texts payload =
     map (\<lambda>c. map (\<lambda>p. get p ''text'') (elements (get c ''parts'')))
       (elements (get payload ''contents''))"

fun part_text :: "part \<Rightarrow> jsval" where
  "part_text (TextPart t) = JStr t"
| "part_text p = JUndefined"

definition is_snake_case :: "string \<Rightarrow> bool" where
  \<comment> \<open>no capital letter: \<^verbatim>\<open>max_output_tokens\<close> is, \<^verbatim>\<open>maxOutputTokens\<close> is not\<close>
  "is_snake_case key = list_all (\<lambda>c. c \<notin> set ''ABCDEFGHIJKLMNOPQRSTUVWXYZ'') key"

definition wire_payload :: "request \<Rightarrow> jsval" where
  "wire_payload r =
     JObj ((case req_systemInstruction r of
              None \<Rightarrow> []
            | Some t \<Rightarrow> [(''system_instruction'', JObj [(''parts'', JArr [JObj [(''text'', JStr t)]])])]) @
           [(''contents'', JArr (map wire_turn (req_contents r))),
            (''generation_config'',
               JObj (generation_config_properties (req_generationConfig r)))])"

definition default_request :: request where
  \<comment> \<open>one user turn, the fixed generation parameters of \<^verbatim>\<open>buildGeminiRequest\<close>\<close>
  "default_request =
     \<lparr> req_systemInstruction = Some ''You are a helpful assistant.'',
       req_contents = [\<lparr> turn_role = User, turn_parts = [TextPart ''What is a stable sort?''] \<rparr>],
       req_generationConfig =
         \<lparr> temperature = 7 / 10, maxOutputTokens = 8192, topK = 40, topP = 95 / 100 \<rparr> \<rparr>"

section \<open>Raw transport: response validation\<close>

text \<open>
  \<^verbatim>\<open>_makeAlternativeRequest\<close> resolves or rejects when the reply has arrived. The model
  below is its handler for a reply with status 200 whose body \<^verbatim>\<open>JSON.parse\<close> has
  accepted: \<open>response\<close> is the parsed body, \<open>Inr\<close> the text it resolves with, \<open>Inl\<close> the
  rejection. Each rejection stands for one \<^verbatim>\<open>reject(new Error(...))\<close> of the source;
  \<open>rejection_message\<close> gives the message where the source fixes it.
\<close>

datatype rejection =
  ApiError jsval
| MissingCandidates
| EmptyCandidates
| MissingContent
| TruncatedNoContent jsval jsval
| MissingParts
| EmptyParts
| PartMissingText
| EmptyText
| UnexpectedParseError

definition orZero :: "jsval \<Rightarrow> jsval" where
  \<comment> \<open>\<^verbatim>\<open>v || 0\<close>\<close>
  "orZero v = (if truthy v then v else JNum 0)"

fun nonEmptyArray :: "jsval \<Rightarrow> bool" where
  "nonEmptyArray (JArr (x # xs)) = True"
| "nonEmptyArray v = False"

definition makeAlternativeRequest_onBody :: "jsval \<Rightarrow> rejection + string" where
  "makeAlternativeRequest_onBody response =
     (if nullish response then Inl UnexpectedParseError
      else if truthy (get response ''error'') then Inl (ApiError (get response ''error''))
      else if \<not> truthy (get response ''candidates'') then Inl MissingCandidates
      else case get response ''candidates'' of
        JArr (candidate # others) \<Rightarrow>
          if nullish candidate then Inl UnexpectedParseError
          else if \<not> truthy (get candidate ''content'') then Inl MissingContent
          else
            let content = get candidate ''content'';
                usageInfo = (if truthy (get response ''usageMetadata'')
                             then get response ''usageMetadata'' else JObj [])
            in
            if get candidate ''finishReason'' = JStr ''MAX_TOKENS'' \<and>
               (\<not> truthy (get content ''parts'') \<or> \<not> nonEmptyArray (get content ''parts''))
            then Inl (TruncatedNoContent (orZero (get usageInfo ''thoughtsTokenCount''))
                                         (orZero (get usageInfo ''totalTokenCount'')))
            else if \<not> truthy (get content ''parts'') then Inl MissingParts
            else (case get content ''parts'' of
                    JArr (firstPart # rest) \<Rightarrow>
                      if \<not> truthy firstPart \<or> \<not> truthy (get firstPart ''text'')
                      then Inl PartMissingText
                      else (case get firstPart ''text'' of
                              JStr text \<Rightarrow>
                                if length (trim text) = 0 then Inl EmptyText
                                else Inr (trim text)
                            | _ \<Rightarrow> Inl EmptyText)
                  | _ \<Rightarrow> Inl EmptyParts)
      | _ \<Rightarrow> Inl EmptyCandidates)"

definition templateValue :: "jsval \<Rightarrow> string option" where
  \<comment> \<open>\<^verbatim>\<open>${v}\<close> in a template literal, for the values whose rendering the model covers:
      strings, and the natural numbers below \<open>2 ^ 53\<close>, which a JavaScript number holds
      exactly and prints in plain decimal digits.\<close>
  "templateValue v =
     (case v of
        JStr s \<Rightarrow> Some s
      | JNum r \<Rightarrow>
          if 0 \<le> r \<and> r < 2 ^ 53 \<and> of_int \<lfloor>r\<rfloor> = r then Some (show_nat (nat \<lfloor>r\<rfloor>)) else None
      | _ \<Rightarrow> None)"

fun rejection_message :: "rejection \<Rightarrow> string option" where
  "rejection_message MissingCandidates = Some ''Invalid response structure: missing candidates array''"
| "rejection_message EmptyCandidates = Some ''Invalid response structure: candidates array is empty''"
| "rejection_message MissingContent = Some ''Invalid response structure: candidate missing content''"
| "rejection_message (TruncatedNoContent thoughtsTokens totalTokens) =
     (case (templateValue thoughtsTokens, templateValue totalTokens) of
        (Some a, Some b) \<Rightarrow>
          Some (''Response truncated: MAX_TOKENS limit reached with no content. Thoughts tokens: ''
                @ a @ '', Total tokens: '' @ b
                @ ''. Consider increasing maxOutputTokens significantly.'')
      | _ \<Rightarrow> None)"
| "rejection_message MissingParts = Some ''Invalid response structure: content missing parts''"
| "rejection_message EmptyParts = Some ''Invalid response structure: parts array is empty''"
| "rejection_message PartMissingText = Some ''Invalid response structure: part missing text''"
| "rejection_message EmptyText = Some ''Empty or invalid text content in Gemini response''"
| "rejection_message (ApiError e) = None"
| "rejection_message UnexpectedParseError = None"

text \<open>
  Truncated replies: text in the first part, no parts, text in the second part, and a
  candidate without content.
\<close>

definition truncated_without_content :: jsval where
  "truncated_without_content =
     JObj [(''candidates'', JArr [JObj [(''finishReason'', JStr ''MAX_TOKENS'')]]),
           (''usageMetadata'', JObj [(''thoughtsTokenCount'', JNum 8191), (''totalTokenCount'', JNum 8300)])]"


definition truncated_with_text :: jsval where
  "truncated_with_text =
     JObj [(''candidates'',
            JArr [JObj [(''content'', JObj [(''parts'', JArr [JObj [(''text'', JStr ''MergeSort is '')]])]),
                        (''finishReason'', JStr ''MAX_TOKENS'')]]),
           (''usageMetadata'', JObj [(''thoughtsTokenCount'', JNum 100), (''totalTokenCount'', JNum 8292)])]"

definition truncated_without_parts :: jsval where
  "truncated_without_parts =
     JObj [(''candidates'',
            JArr [JObj [(''content'', JObj [(''role'', JStr ''model'')]),
                        (''finishReason'', JStr ''MAX_TOKENS'')]]),
           (''usageMetadata'', JObj [(''thoughtsTokenCount'', JNum 8191), (''totalTokenCount'', JNum 8300)])]"

definition truncated_text_in_second_part :: jsval where
  "truncated_text_in_second_part =
     JObj [(''candidates'',
            JArr [JObj [(''content'',
                          JObj [(''parts'', JArr [JObj [(''thought'', JBool True)],
                                                  JObj [(''text'', JStr ''MergeSort is '')]])]),
                        (''finishReason'', JStr ''MAX_TOKENS'')]]),
           (''usageMetadata'', JObj [(''thoughtsTokenCount'', JNum 100), (''totalTokenCount'', JNum 8292)])]"

section \<open>Raw transport: retries over the credentials\<close>

text \<open>
  What the service cannot decide itself is given by the environment: the configuration
  values it reads, and the outcome of every network request and of every call of
  \<^verbatim>\<open>Math.random\<close>, each as a function of the number of such calls made before it.
  \<open>generateContent env n m\<close> is the outcome of the request through the SDK client \<open>m\<close>
  raced against the timeout; \<open>makeAlternativeRequest env n i a\<close> is the outcome of
  \<^verbatim>\<open>_makeAlternativeRequest\<close> with the key at index \<open>i\<close> on attempt \<open>a\<close>, rejected with an
  error or resolved with the text. The connectivity pre-flight check and the logging do
  not change the control flow and are left out.
\<close>

datatype sdk_outcome = SdkThrows js_error | SdkNoResponse | SdkText string

record environment =
  apiKeys :: "string list"
  maxRetries :: nat
  enableFallbackMethod :: bool
  generateContent :: "nat \<Rightarrow> string \<Rightarrow> sdk_outcome"
  makeAlternativeRequest :: "nat \<Rightarrow> nat \<Rightarrow> nat \<Rightarrow> js_error + string"
  mathRandom :: "nat \<Rightarrow> real"

text \<open>
  The state of a run: the credential pool, the counters of the calls made so far, and the
  log of what the run did to the outside, in order: requests through the SDK (with the
  client used), raw HTTPS requests (with key index and attempt number) and sleeps (in
  milliseconds).
\<close>

datatype event = SdkRequest string | HttpsRequest nat nat | Delay real

record world = llm_service +
  sdkCalls :: nat
  httpsCalls :: nat
  randomCalls :: nat
  events :: "event list"

definition isAlternativeRequestRetryable :: "string \<Rightarrow> int option \<Rightarrow> bool" where
  "isAlternativeRequestRetryable errorMessage code =
     (if errorMessage = [] then False
      else
        let msg = toLowerCase errorMessage in
        if code = Some 503 \<or> code = Some 429 \<or>
           (case code of Some c \<Rightarrow> 500 \<le> c \<and> c \<le> 504 | None \<Rightarrow> False) then True
        else if str_includes msg ''timeout'' then True
        else if str_includes msg ''econnreset'' \<or> str_includes msg ''econnaborted'' \<or>
                str_includes msg ''socket hang up'' \<or> str_includes msg ''connection reset'' then True
        else if code = Some 400 \<or> code = Some 401 \<or> code = Some 403 then False
        else False)"

datatype alt_step = AltResolved string | AltRethrow js_error | AltNextKey

function alternativeRetry ::
  "environment \<Rightarrow> nat \<Rightarrow> nat \<Rightarrow> bool \<Rightarrow> nat \<Rightarrow> js_error option \<Rightarrow> world
     \<Rightarrow> alt_step \<times> js_error option \<times> world" where
  \<comment> \<open>The \<^verbatim>\<open>for (let attempt = 1; attempt <= maxRetries; attempt++)\<close> loop of
      \<^verbatim>\<open>executeAlternativeRequest\<close> for one key; the second component is \<^verbatim>\<open>lastError\<close>.\<close>
  "alternativeRetry env maxR idx isLastKey attempt lastError w =
     (if attempt \<le> maxR then
        (let w1 = w\<lparr>httpsCalls := httpsCalls w + 1,
                    events := events w @ [HttpsRequest idx attempt]\<rparr>
         in case makeAlternativeRequest env (httpsCalls w) idx attempt of
              Inr result \<Rightarrow> (AltResolved result, lastError, w1\<lparr>currentKeyIndex := idx\<rparr>)
            | Inl error \<Rightarrow>
                (let errorMessage = (if message error \<noteq> [] then message error
                                     else errorToString error);
                     isQuotaError =
                       (statusCode error = Some 429 \<or> statusCode error = Some 503 \<or>
                        str_includes (toLowerCase errorMessage) ''quota'' \<or>
                        str_includes (toLowerCase errorMessage) ''rate limit'' \<or>
                        str_includes (toLowerCase errorMessage) ''overloaded'')
                 in if isQuotaError then (AltNextKey, Some error, markKeyExhausted idx w1)
                    else if \<not> isAlternativeRequestRetryable errorMessage (statusCode error) \<or>
                            attempt = maxR
                    then (if isLastKey then (AltRethrow error, Some error, w1)
                          else (AltNextKey, Some error, w1))
                    else alternativeRetry env maxR idx isLastKey (attempt + 1) (Some error)
                           (w1\<lparr>events := events w1 @
                                 [Delay (min (2000 * 2 ^ (attempt - 1)) 10000)]\<rparr>)))
      else (AltNextKey, lastError, w))"
  by pat_completeness auto
termination
  by (relation "measure (\<lambda>(env, maxR, idx, isLastKey, attempt, lastError, w). maxR + 1 - attempt)")
     auto

declare alternativeRetry.simps [simp del]

fun alternativeKeys ::
  "environment \<Rightarrow> jsval \<Rightarrow> nat \<Rightarrow> nat list \<Rightarrow> js_error option \<Rightarrow> world
     \<Rightarrow> (thrown + string) \<times> world" where
  \<comment> \<open>The \<^verbatim>\<open>for (const keyInfo of keysToTry)\<close> loop and the \<^verbatim>\<open>throw\<close> after it.\<close>
  "alternativeKeys env request maxR [] lastError w =
     (Inl (Thrown (case lastError of
                     Some e \<Rightarrow> e
                   | None \<Rightarrow> newError ''All API keys exhausted'')), w)"
| "alternativeKeys env request maxR (idx # rest) lastError w =
     (case transformRequestForHttpTransport request of
        Inl transformError \<Rightarrow> (Inl transformError, w)
      | Inr httpPayload \<Rightarrow>
          (case alternativeRetry env maxR idx (rest = []) 1 lastError w of
             (AltResolved result, le, w') \<Rightarrow> (Inr result, w')
           | (AltRethrow error, le, w') \<Rightarrow> (Inl (Thrown error), w')
           | (AltNextKey, le, w') \<Rightarrow> alternativeKeys env request maxR rest le w'))"

definition executeAlternativeRequest ::
  "environment \<Rightarrow> jsval \<Rightarrow> nat \<Rightarrow> nat option \<Rightarrow> world \<Rightarrow> (thrown + string) \<times> world" where
  "executeAlternativeRequest env request maxR keyIndex w =
     (let n = length (apiKeys env);
          fromPool = (if currentKeyIndex w < n then currentKeyIndex w else 0);
          currentKeyIdx = (case keyIndex of
                             Some k \<Rightarrow> if k < n then k else fromPool
                           | None \<Rightarrow> fromPool)
      in if n = 0
         then (Inl (Thrown (newError ''No Gemini API keys available for alternative request'')), w)
         else
           let keysToTry = filter (\<lambda>idx. idx \<notin> exhaustedKeys w)
                             (map (\<lambda>i. (currentKeyIdx + i) mod n) [0..<n])
           in if keysToTry = []
              then alternativeKeys env request maxR [currentKeyIdx] None (w\<lparr>exhaustedKeys := {}\<rparr>)
              else alternativeKeys env request maxR keysToTry None w)"

section \<open>Retry and fallback orchestrator\<close>

text \<open>
  \<^verbatim>\<open>executeRequest\<close> is a \<^verbatim>\<open>for\<close> loop over the attempt number whose body is a
  \<^verbatim>\<open>try\<close> block and a \<^verbatim>\<open>catch\<close> block. \<open>executeRequest_try\<close> is the \<^verbatim>\<open>try\<close> block: it
  returns the trimmed text, or the error that enters the \<^verbatim>\<open>catch\<close> block.
\<close>

definition executeRequest_try :: "environment \<Rightarrow> world \<Rightarrow> (js_error + string) \<times> world" where
  "executeRequest_try env w =
     (case getNextModel w of
        (None, w1) \<Rightarrow> (Inl (newError ''No available Gemini models''), w1)
      | (Some currentModel, w1) \<Rightarrow>
          (let w2 = w1\<lparr>sdkCalls := sdkCalls w1 + 1,
                       events := events w1 @ [SdkRequest currentModel]\<rparr>
           in case generateContent env (sdkCalls w1) currentModel of
                SdkThrows error \<Rightarrow> (Inl error, w2)
              | SdkNoResponse \<Rightarrow> (Inl (newError ''Empty response from Gemini API''), w2)
              | SdkText responseText \<Rightarrow>
                  if length (trim responseText) = 0
                  then (Inl (newError ''Empty text content in Gemini response''), w2)
                  else (Inr (trim responseText), w2)))"

text \<open>
  The \<^verbatim>\<open>try\<close> block declares \<^verbatim>\<open>const currentKeyIndex = this.currentKeyIndex\<close> (line 770).
  A \<^verbatim>\<open>const\<close> is scoped to its block, and the \<^verbatim>\<open>catch\<close> block is another block: there
  the name \<^verbatim>\<open>currentKeyIndex\<close> is not declared, and \<^verbatim>\<open>typeof currentKeyIndex\<close> is
  \<^verbatim>\<open>'undefined'\<close> whatever the \<^verbatim>\<open>try\<close> block stored. The \<^verbatim>\<open>catch\<close> block is modelled with
  a parameter \<open>cki\<close> for the value of that name, \<open>None\<close> when it is undefined, so that each
  of its branches can be compared with the source; \<open>currentKeyIndex_in_catch\<close> is the value
  the loop passes.
\<close>

definition currentKeyIndex_in_catch :: "nat \<Rightarrow> nat option" where
  "currentKeyIndex_in_catch declared_in_try = None"

record final_error =
  final_message :: string
  errorAnalysis :: "error_info option"
  originalError :: "js_error option"

datatype loop_step = Return string | Throw final_error | Continue

definition backoffDelay :: "bool \<Rightarrow> nat \<Rightarrow> real \<Rightarrow> real" where
  "backoffDelay networkError attempt jitter =
     (let baseDelay = (if networkError then 2000 else 1000);
          exponentialDelay = baseDelay * 2 ^ (attempt - 1)
      in min (exponentialDelay + jitter) 10000)"

definition catch_lastAttemptOrBackoff ::
  "environment \<Rightarrow> nat \<Rightarrow> nat option \<Rightarrow> js_error \<Rightarrow> error_info \<Rightarrow> world
     \<Rightarrow> loop_step \<times> world" where
  \<comment> \<open>from \<^verbatim>\<open>if (attempt === maxRetries)\<close> to the end of the \<^verbatim>\<open>catch\<close> block\<close>
  "catch_lastAttemptOrBackoff env attempt cki error errorInfo w =
     (if attempt = maxRetries env then
        (let failure = Throw \<lparr> final_message = ''Gemini API failed after '' @
                                 show_nat (maxRetries env) @ '' attempts: '' @ message error,
                               errorAnalysis = Some errorInfo, originalError = Some error \<rparr>
         in case cki of
              None \<Rightarrow> (failure, w)
            | Some k \<Rightarrow>
                if length (models w) > 1 then
                  (let nextKeyIndex = (k + 1) mod length (models w) in
                   if nextKeyIndex \<noteq> k \<and> nextKeyIndex \<notin> exhaustedKeys w then
                     (let w1 = w\<lparr>currentKeyIndex := nextKeyIndex\<rparr>;
                          nextModel = models w ! nextKeyIndex;
                          w2 = w1\<lparr>sdkCalls := sdkCalls w1 + 1,
                                  events := events w1 @ [SdkRequest nextModel]\<rparr>
                      in case generateContent env (sdkCalls w1) nextModel of
                           SdkText responseText \<Rightarrow>
                             if length (trim responseText) > 0 then (Return (trim responseText), w2)
                             else (failure, w2)
                         | _ \<Rightarrow> (failure, w2))
                   else (failure, w))
                else (failure, w))
      else
        (let jitter = mathRandom env (randomCalls w) * 1000;
             delay = backoffDelay (isNetworkError errorInfo) attempt jitter
         in (Continue, w\<lparr>randomCalls := randomCalls w + 1, events := events w @ [Delay delay]\<rparr>)))"

definition catch_alternativeTransport ::
  "environment \<Rightarrow> jsval \<Rightarrow> nat \<Rightarrow> nat option \<Rightarrow> js_error \<Rightarrow> error_info \<Rightarrow> world
     \<Rightarrow> loop_step \<times> world" where
  \<comment> \<open>from \<^verbatim>\<open>if (errorInfo.type === 'NETWORK_ERROR' && ...)\<close> on\<close>
  "catch_alternativeTransport env request attempt cki error errorInfo w =
     (if type errorInfo = NETWORK_ERROR \<and> enableFallbackMethod env \<and> attempt \<le> 2 then
        (case executeAlternativeRequest env request 3 cki w of
           (Inr fallbackResponse, w1) \<Rightarrow> (Return fallbackResponse, w1)
         | (Inl fallbackError, w1) \<Rightarrow>
             (case cki of
                None \<Rightarrow> catch_lastAttemptOrBackoff env attempt cki error errorInfo w1
              | Some k \<Rightarrow>
                  if length (models w1) > 1 then
                    (let nextKeyIndex = (k + 1) mod length (models w1) in
                     if nextKeyIndex \<noteq> k then
                       (case executeAlternativeRequest env request 3 (Some nextKeyIndex) w1 of
                          (Inr nextKeyResponse, w2) \<Rightarrow>
                            (Return nextKeyResponse, w2\<lparr>currentKeyIndex := nextKeyIndex\<rparr>)
                        | (Inl nextKeyError, w2) \<Rightarrow>
                            catch_lastAttemptOrBackoff env attempt cki error errorInfo w2)
                     else catch_lastAttemptOrBackoff env attempt cki error errorInfo w1)
                  else catch_lastAttemptOrBackoff env attempt cki error errorInfo w1))
      else catch_lastAttemptOrBackoff env attempt cki error errorInfo w)"

definition catch_nonRetryable ::
  "environment \<Rightarrow> jsval \<Rightarrow> nat \<Rightarrow> nat option \<Rightarrow> js_error \<Rightarrow> error_info \<Rightarrow> world
     \<Rightarrow> loop_step \<times> world" where
  \<comment> \<open>from \<^verbatim>\<open>if (errorInfo.isRetryable === false)\<close> on\<close>
  "catch_nonRetryable env request attempt cki error errorInfo w =
     (if isRetryable errorInfo = False then
        (Throw \<lparr> final_message = ''Gemini API error (non-retryable): '' @ message error,
                 errorAnalysis = Some errorInfo, originalError = Some error \<rparr>, w)
      else catch_alternativeTransport env request attempt cki error errorInfo w)"

definition executeRequest_catch ::
  "environment \<Rightarrow> jsval \<Rightarrow> nat \<Rightarrow> nat option \<Rightarrow> js_error \<Rightarrow> world \<Rightarrow> loop_step \<times> world" where
  \<comment> \<open>The \<^verbatim>\<open>catch (error)\<close> block. \<open>Continue\<close> is the next iteration of the \<^verbatim>\<open>for\<close> loop,
      reached by \<^verbatim>\<open>continue\<close> or by the end of the block: both run \<^verbatim>\<open>attempt++\<close>.\<close>
  "executeRequest_catch env request attempt cki error w =
     (let errorInfo = analyzeError error;
          errorMessage = toLowerCase (message error);
          isQuotaError = (type errorInfo = RATE_LIMIT_ERROR \<or>
                          str_includes errorMessage ''quota'' \<or>
                          str_includes errorMessage ''rate limit'' \<or>
                          str_includes errorMessage ''429'' \<or>
                          status error = Some 429)
      in case cki of
           None \<Rightarrow> catch_nonRetryable env request attempt cki error errorInfo w
         | Some k \<Rightarrow>
             if isQuotaError \<and> length (models w) > 1 then
               (let w1 = markKeyExhausted k w in
                if card (exhaustedKeys w1) < length (models w1) then (Continue, w1)
                else catch_nonRetryable env request attempt cki error errorInfo w1)
             else catch_nonRetryable env request attempt cki error errorInfo w)"

function executeRequest_loop ::
  "environment \<Rightarrow> jsval \<Rightarrow> nat \<Rightarrow> (js_error \<times> error_info) option \<Rightarrow> world
     \<Rightarrow> (final_error + string) \<times> world" where
  \<comment> \<open>\<^verbatim>\<open>for (let attempt = 1; attempt <= maxRetries; attempt++)\<close> and the \<^verbatim>\<open>throw\<close> after
      it; \<open>lastFailure\<close> is \<^verbatim>\<open>lastError\<close> with \<^verbatim>\<open>lastErrorInfo\<close>.\<close>
  "executeRequest_loop env request attempt lastFailure w =
     (if attempt \<le> maxRetries env then
        (case executeRequest_try env w of
           (Inr responseText, w1) \<Rightarrow> (Inr responseText, w1)
         | (Inl error, w1) \<Rightarrow>
             (case executeRequest_catch env request attempt
                     (currentKeyIndex_in_catch (currentKeyIndex w1)) error w1 of
                (Return response, w2) \<Rightarrow> (Inr response, w2)
              | (Throw finalError, w2) \<Rightarrow> (Inl finalError, w2)
              | (Continue, w2) \<Rightarrow>
                  executeRequest_loop env request (attempt + 1)
                    (Some (error, analyzeError error)) w2))
      else
        (Inl \<lparr> final_message = ''Gemini API failed after '' @ show_nat (maxRetries env) @
                  '' attempts: '' @
                  (case lastFailure of
                     Some (lastError, lastErrorInfo) \<Rightarrow>
                       if message lastError \<noteq> [] then message lastError else ''Unknown error''
                   | None \<Rightarrow> ''Unknown error''),
                errorAnalysis = map_option snd lastFailure,
                originalError = map_option fst lastFailure \<rparr>, w))"
  by pat_completeness auto
termination
  by (relation "measure (\<lambda>(env, request, attempt, lastFailure, w). maxRetries env + 1 - attempt)") auto

declare executeRequest_loop.simps [simp del]

definition executeRequest :: "environment \<Rightarrow> jsval \<Rightarrow> world \<Rightarrow> (final_error + string) \<times> world" where
  "executeRequest env geminiRequest w = executeRequest_loop env geminiRequest 1 None w"

section \<open>Example runs\<close>

text \<open>
  A service with two credentials and nothing exhausted, and an environment in which every
  request through the SDK fails with the same error.
\<close>

definition two_key_world :: world where
  "two_key_world =
     \<lparr> models = [''client-1'', ''client-2''], currentKeyIndex = 0, exhaustedKeys = {},
       sdkCalls = 0, httpsCalls = 0, randomCalls = 0, events = [] \<rparr>"

definition forbidden_error :: js_error where
  "forbidden_error = newError ''api key not valid: 403 forbidden''"

definition quota_error :: js_error where
  "quota_error =
     \<lparr> name = ''Error'', message = ''429 too many requests: quota exceeded'',
       status = Some 429, statusCode = None \<rparr>"

definition failing_env :: "js_error \<Rightarrow> nat \<Rightarrow> environment" where
  \<comment> \<open>two keys, every SDK request fails with the given error\<close>
  "failing_env error retries =
     \<lparr> apiKeys = [''key-1'', ''key-2''], maxRetries = retries, enableFallbackMethod = True,
       generateContent = (\<lambda>n m. SdkThrows error),
       makeAlternativeRequest = (\<lambda>n i a. Inl (newError ''alternative request timeout'')),
       mathRandom = (\<lambda>n. 1 / 2) \<rparr>"

section \<open>Regular expressions\<close>

text \<open>
  The patterns of the answer extractor are regular expression literals. They are written
  here as terms of a datatype, one constructor per construct of the pattern language the
  detection phase uses, and \<open>regexp_test\<close> models \<^verbatim>\<open>pattern.test(text)\<close> on a fresh
  pattern object: does the pattern match somewhere in the text. None of those patterns has
  a back-reference or a look-around, so whether a match exists does not depend on the
  order in which the engine tries alternatives; a quantifier records whether it is lazy
  (\<^verbatim>\<open>*?\<close>) only so that the term can be compared with the source.
\<close>

datatype char_class =
  Range char char
| Single char
| WhiteSpaceClass
| NonWhiteSpaceClass
| WordClass
| DigitClass

datatype greed = Greedy | Lazy

datatype regex =
  Lit string
| Dot
| Class "char_class list"
| Seq regex regex
| Alt regex regex
| Star greed regex
| Plus greed regex
| Repeat greed nat nat regex
| LineStart
| Empty

record regexp =
  pattern :: regex
  ignoreCase :: bool
  multiline :: bool

fun seq :: "regex list \<Rightarrow> regex" where
  "seq [] = Empty"
| "seq [r] = r"
| "seq (r # rs) = Seq r (seq rs)"

fun alts :: "regex list \<Rightarrow> regex" where
  "alts [] = Empty"
| "alts [r] = r"
| "alts (r # rs) = Alt r (alts rs)"

definition isLineTerminator :: "char \<Rightarrow> bool" where
  "isLineTerminator c = (c = CHR 0x0A \<or> c = CHR 0x0D)"

definition in_range :: "char \<Rightarrow> char \<Rightarrow> char \<Rightarrow> bool" where
  "in_range lo hi c = ((of_char lo :: nat) \<le> of_char c \<and> (of_char c :: nat) \<le> of_char hi)"

definition asciiUpper :: "char \<Rightarrow> char" where
  "asciiUpper c =
     (case map_of (zip ''abcdefghijklmnopqrstuvwxyz'' ''ABCDEFGHIJKLMNOPQRSTUVWXYZ'') c of
        Some u \<Rightarrow> u
      | None \<Rightarrow> c)"

definition asciiLower :: "char \<Rightarrow> char" where
  "asciiLower c =
     (case map_of (zip ''ABCDEFGHIJKLMNOPQRSTUVWXYZ'' ''abcdefghijklmnopqrstuvwxyz'') c of
        Some l \<Rightarrow> l
      | None \<Rightarrow> c)"

definition same_char :: "bool \<Rightarrow> char \<Rightarrow> char \<Rightarrow> bool" where
  \<comment> \<open>a pattern character against a text character; with the \<^verbatim>\<open>i\<close> flag both are
      canonicalized, which for the ASCII characters of the patterns is the upper case\<close>
  "same_char ic p c = (if ic then asciiUpper p = asciiUpper c else p = c)"

fun in_class_item :: "bool \<Rightarrow> char_class \<Rightarrow> char \<Rightarrow> bool" where
  "in_class_item ic (Range lo hi) c =
     (in_range lo hi c \<or> (ic \<and> (in_range lo hi (asciiUpper c) \<or> in_range lo hi (asciiLower c))))"
| "in_class_item ic (Single p) c = same_char ic p c"
| "in_class_item ic WhiteSpaceClass c = isWhiteSpace c"
| "in_class_item ic NonWhiteSpaceClass c = (\<not> isWhiteSpace c)"
| "in_class_item ic WordClass c =
     (in_range CHR ''a'' CHR ''z'' c \<or> in_range CHR ''A'' CHR ''Z'' c \<or>
      in_range CHR ''0'' CHR ''9'' c \<or> c = CHR ''_'')"
| "in_class_item ic DigitClass c = in_range CHR ''0'' CHR ''9'' c"

text \<open>
  A matcher state is an end index into the text, from 0 to its length. A construct maps
  the list of indices a match may have reached before it to the list of indices it may
  have reached after it; the list may hold an index more than once. A match may start at
  any index.
\<close>

fun consume_literal :: "bool \<Rightarrow> string \<Rightarrow> string \<Rightarrow> nat \<Rightarrow> nat option" where
  "consume_literal ic text [] i = Some i"
| "consume_literal ic text (p # ps) i =
     (if i < length text then
        (if same_char ic p (text ! i) then consume_literal ic text ps (i + 1) else None)
      else None)"

definition consume_char :: "(char \<Rightarrow> bool) \<Rightarrow> string \<Rightarrow> nat \<Rightarrow> nat option" where
  "consume_char ok text i =
     (if i < length text then (if ok (text ! i) then Some (i + 1) else None) else None)"

definition at_line_start :: "bool \<Rightarrow> string \<Rightarrow> nat \<Rightarrow> bool" where
  \<comment> \<open>\<^verbatim>\<open>^\<close>: the start of the text, and with the \<^verbatim>\<open>m\<close> flag the index after a line terminator\<close>
  "at_line_start ml text i = (if i = 0 then True else ml \<and> isLineTerminator (text ! (i - 1)))"

fun iterate_upto :: "nat \<Rightarrow> (nat list \<Rightarrow> nat list) \<Rightarrow> nat list \<Rightarrow> nat list" where
  \<comment> \<open>the indices reached after 0, 1, ... up to \<open>n\<close> rounds of \<open>f\<close>\<close>
  "iterate_upto 0 f ps = ps"
| "iterate_upto (Suc n) f ps = (if ps = [] then [] else ps @ iterate_upto n f (f ps))"

primrec run :: "regex \<Rightarrow> bool \<Rightarrow> bool \<Rightarrow> string \<Rightarrow> nat list \<Rightarrow> nat list" where
  "run (Lit s) ic ml text ps = List.map_filter (consume_literal ic text s) ps"
| "run Dot ic ml text ps =
     List.map_filter (consume_char (\<lambda>c. \<not> isLineTerminator c) text) ps"
| "run (Class items) ic ml text ps =
     List.map_filter (consume_char (\<lambda>c. list_ex (\<lambda>item. in_class_item ic item c) items) text) ps"
| "run (Seq r1 r2) ic ml text ps = run r2 ic ml text (run r1 ic ml text ps)"
| "run (Alt r1 r2) ic ml text ps = run r1 ic ml text ps @ run r2 ic ml text ps"
| "run (Star g r) ic ml text ps = iterate_upto (length text) (run r ic ml text) ps"
| "run (Plus g r) ic ml text ps =
     iterate_upto (length text) (run r ic ml text) (run r ic ml text ps)"
| "run (Repeat g lo hi r) ic ml text ps =
     iterate_upto (hi - lo) (run r ic ml text) (((run r ic ml text) ^^ lo) ps)"
| "run LineStart ic ml text ps = filter (at_line_start ml text) ps"
| "run Empty ic ml text ps = ps"

definition regexp_test :: "regexp \<Rightarrow> string \<Rightarrow> bool" where
  "regexp_test re text =
     (run (pattern re) (ignoreCase re) (multiline re) text [0..<length text + 1] \<noteq> [])"

section \<open>MCQ answer extractor: detection\<close>

text \<open>
  The arguments of \<^verbatim>\<open>extractMcqAnswer\<close> are strings, \<^verbatim>\<open>null\<close> or \<^verbatim>\<open>undefined\<close>. The model
  covers the function up to the point where the prompt has been classified: it returns
  \<open>Returns v\<close> when the function returns \<open>v\<close> at one of its three early returns, and
  \<open>ExtractsLetter response originalText\<close> when the prompt is classified as a multiple-choice
  question and control passes to the extraction of the letter and the option text.
\<close>

datatype js_text = Undefined | Null | Text string

datatype mcq_outcome = Returns js_text | ExtractsLetter string string

definition whitespace :: regex where
  "whitespace = Class [WhiteSpaceClass]"

definition wordChar :: regex where
  "wordChar = Class [WordClass]"

definition anyChar :: regex where
  \<comment> \<open>\<^verbatim>\<open>[\s\S]\<close>\<close>
  "anyChar = Class [WhiteSpaceClass, NonWhiteSpaceClass]"

definition optionLetter :: regex where
  \<comment> \<open>\<^verbatim>\<open>[a-eA-E]\<close>\<close>
  "optionLetter = Class [Range CHR ''a'' CHR ''e'', Range CHR ''A'' CHR ''E'']"

definition parenOrDot :: regex where
  \<comment> \<open>\<^verbatim>\<open>[\)\.]\<close>\<close>
  "parenOrDot = Class [Single CHR '')'', Single CHR ''.'']"

definition codingProblemIndicators :: "regexp list" where
  "codingProblemIndicators =
     [\<lparr> pattern = seq [Lit ''class'', Plus Greedy whitespace, Plus Greedy wordChar,
                         Star Greedy whitespace, Lit ''{''],
        ignoreCase = True, multiline = False \<rparr>,
      \<lparr> pattern = seq [alts [Lit ''def'', Lit ''function'', Lit ''public'', Lit ''private'',
                               Lit ''protected''],
                         Plus Greedy whitespace, Plus Greedy wordChar, Star Greedy whitespace,
                         Lit ''(''],
        ignoreCase = True, multiline = False \<rparr>,
      \<lparr> pattern = alts [Lit ''leetcode'', Lit ''hackerrank'', Lit ''codeforces'', Lit ''atcoder''],
        ignoreCase = True, multiline = False \<rparr>,
      \<lparr> pattern = alts [seq [Plus Greedy (Class [DigitClass]), Lit ''.'', Plus Greedy whitespace,
                               Plus Greedy wordChar, Star Greedy Dot, Lit ''rectangle''],
                          Lit ''array'', Lit ''tree'', Lit ''graph'', Lit ''string''],
        ignoreCase = True, multiline = False \<rparr>,
      \<lparr> pattern = alts [Lit ''solution'', Lit ''implement'', Lit ''algorithm'',
                          seq [Lit ''code'', Plus Greedy whitespace, Lit ''to'']],
        ignoreCase = True, multiline = False \<rparr>,
      \<lparr> pattern = seq [Lit ''return'', Plus Greedy whitespace,
                         alts [Lit ''true'', Lit ''false'', Plus Greedy wordChar]],
        ignoreCase = True, multiline = False \<rparr>,
      \<lparr> pattern = alts [Lit ''#include'',
                          seq [Lit ''using'', Plus Greedy whitespace, Lit ''namespace''],
                          seq [Lit ''import'', Plus Greedy whitespace]],
        ignoreCase = True, multiline = False \<rparr>,
      \<lparr> pattern = alts [Lit ''vector'', Lit ''list'', Lit ''map'', Lit ''set'', Lit ''queue'',
                          Lit ''stack''],
        ignoreCase = True, multiline = False \<rparr>,
      \<lparr> pattern = alts [seq [Lit ''int'', Plus Greedy whitespace, Plus Greedy wordChar,
                               Star Greedy whitespace, Lit ''(''],
                          seq [Lit ''void'', Plus Greedy whitespace, Plus Greedy wordChar,
                               Star Greedy whitespace, Lit ''(''],
                          seq [Lit ''bool'', Plus Greedy whitespace, Plus Greedy wordChar,
                               Star Greedy whitespace, Lit ''('']],
        ignoreCase = True, multiline = False \<rparr>]"

definition isLikelyCodingProblem :: "string \<Rightarrow> bool" where
  "isLikelyCodingProblem originalText =
     list_ex (\<lambda>pattern. regexp_test pattern originalText) codingProblemIndicators"

definition hasCodeBlocks :: "string \<Rightarrow> bool" where
  "hasCodeBlocks response =
     regexp_test \<lparr> pattern = seq [Lit ''```'', Star Lazy anyChar, Lit ''```''],
                   ignoreCase = False, multiline = False \<rparr> response"

definition codingSkills :: "string list" where
  "codingSkills = [''dsa'', ''programming'', ''devops'', ''data-science'', ''system-design'']"

fun isCodingSkill :: "js_text \<Rightarrow> bool" where
  \<comment> \<open>\<^verbatim>\<open>activeSkill && codingSkills.includes(activeSkill)\<close>, as a condition\<close>
  "isCodingSkill (Text activeSkill) = (activeSkill \<noteq> [] \<and> activeSkill \<in> set codingSkills)"
| "isCodingSkill v = False"

definition mcqPatterns :: "regexp list" where
  "mcqPatterns =
     [\<lparr> pattern = seq [alts [Lit ''which'', Lit ''what'', Lit ''choose'', Lit ''select'',
                               Lit ''pick''],
                         Star Lazy Dot,
                         alts [Lit ''option'', Lit ''answer'', Lit ''choice'', Lit ''letter''],
                         Repeat Lazy 0 200 anyChar, optionLetter, parenOrDot],
        ignoreCase = True, multiline = False \<rparr>,
      \<lparr> pattern = seq [alts [Lit ''option'', Lit ''answer'', Lit ''choice''],
                         Star Greedy whitespace, optionLetter, parenOrDot],
        ignoreCase = True, multiline = False \<rparr>,
      \<lparr> pattern = seq [optionLetter, parenOrDot, Plus Greedy whitespace,
                         Class [Range CHR ''A'' CHR ''Z''],
                         Plus Greedy (Class [Range CHR ''a'' CHR ''z''])],
        ignoreCase = True, multiline = False \<rparr>,
      \<lparr> pattern = seq [LineStart, Star Greedy whitespace, optionLetter, parenOrDot,
                         Plus Greedy whitespace, Class [Range CHR ''A'' CHR ''Z'']],
        ignoreCase = False, multiline = True \<rparr>]"

definition mcqMatches :: "string \<Rightarrow> regexp list" where
  "mcqMatches originalText = filter (\<lambda>pattern. regexp_test pattern originalText) mcqPatterns"

definition isMcq :: "string \<Rightarrow> bool" where
  "isMcq originalText = (length (mcqMatches originalText) \<ge> 2)"

definition extractMcqAnswer :: "js_text \<Rightarrow> js_text \<Rightarrow> js_text \<Rightarrow> mcq_outcome" where
  "extractMcqAnswer response originalText activeSkill =
     (case (originalText, response) of
        (Text prompt, Text answer) \<Rightarrow>
          if prompt = [] \<or> answer = [] then Returns response
          else if isLikelyCodingProblem prompt \<or> (hasCodeBlocks answer \<and> isCodingSkill activeSkill)
          then Returns response
          else if \<not> isMcq prompt then Returns response
          else ExtractsLetter answer prompt
      | _ \<Rightarrow> Returns response)"

definition stable_sort_prompt :: string where
  "stable_sort_prompt =
     ''Which is a stable sort? A) QuickSort B) MergeSort C) HeapSort D) Bubble Sort''"

section \<open>Properties of the error classifier\<close>

lemma analyzeError_first_match:
  "type (analyzeError e) =
     (if str_includes (toLowerCase (errorToString e)) ''fetch failed'' then NETWORK_ERROR
      else first_match classifier_table (toLowerCase (message e)))"
  by (simp add: analyzeError_def classifier_table_def Let_def)

lemma analyzeError_flags:
  "isNetworkError (analyzeError e) = (type (analyzeError e) \<in> {NETWORK_ERROR, TIMEOUT_ERROR})"
  "isRetryable (analyzeError e) = (type (analyzeError e) \<notin> {AUTH_ERROR, INVALID_REQUEST_ERROR})"
  by (simp_all add: analyzeError_def Let_def)

text \<open>
  Claim C3. \<open>analyzeError\<close> is a total function of the error's name and message: for
  every error with a string message it returns one of the seven kinds; the kind is the
  first row of the table with a trigger in the lower-cased message (the first check also
  looks for \<^verbatim>\<open>fetch failed\<close> in the error's string form), so a message with both
  \<^verbatim>\<open>timeout\<close> and \<^verbatim>\<open>econnreset\<close> is a NETWORK_ERROR; \<open>isNetworkError\<close> holds
  exactly for NETWORK_ERROR and TIMEOUT_ERROR, and \<open>isRetryable\<close> fails exactly for
  AUTH_ERROR and INVALID_REQUEST_ERROR.
\<close>

theorem analyzeError_classification:
  "type (analyzeError e) \<in> {NETWORK_ERROR, AUTH_ERROR, RATE_LIMIT_ERROR, TIMEOUT_ERROR,
                              SERVER_ERROR, INVALID_REQUEST_ERROR, UNKNOWN_ERROR}
   \<and> type (analyzeError e) =
       (if str_includes (toLowerCase (errorToString e)) ''fetch failed'' then NETWORK_ERROR
        else first_match classifier_table (toLowerCase (message e)))
   \<and> (str_includes (toLowerCase (message e)) ''timeout'' \<and>
      str_includes (toLowerCase (message e)) ''econnreset''
        \<longrightarrow> type (analyzeError e) = NETWORK_ERROR)
   \<and> isNetworkError (analyzeError e) = (type (analyzeError e) \<in> {NETWORK_ERROR, TIMEOUT_ERROR})
   \<and> isRetryable (analyzeError e) = (type (analyzeError e) \<notin> {AUTH_ERROR, INVALID_REQUEST_ERROR})"
proof -
  have kinds: "type (analyzeError e) \<in> {NETWORK_ERROR, AUTH_ERROR, RATE_LIMIT_ERROR,
      TIMEOUT_ERROR, SERVER_ERROR, INVALID_REQUEST_ERROR, UNKNOWN_ERROR}"
    by (cases "type (analyzeError e)") simp_all
  have tie: "str_includes (toLowerCase (message e)) ''econnreset''
      \<Longrightarrow> type (analyzeError e) = NETWORK_ERROR"
    by (simp add: analyzeError_def Let_def)
  show ?thesis
    using kinds tie analyzeError_first_match [of e] analyzeError_flags [of e] by blast
qed

theorem analyzeError_classification_witness:
  "str_includes (toLowerCase (message (newError ''Request timeout: read ECONNRESET''))) ''timeout''
   \<and> str_includes (toLowerCase (message (newError ''Request timeout: read ECONNRESET''))) ''econnreset''
   \<and> type (analyzeError (newError ''Request timeout: read ECONNRESET'')) = NETWORK_ERROR"
proof -
  have a: "str_includes (toLowerCase (message (newError ''Request timeout: read ECONNRESET''))) ''timeout''"
    by code_simp
  have b: "str_includes (toLowerCase (message (newError ''Request timeout: read ECONNRESET''))) ''econnreset''"
    by code_simp
  from analyzeError_classification [of "newError ''Request timeout: read ECONNRESET''"] a b
  show ?thesis by blast
qed

section \<open>Properties of the credential pool\<close>

lemma scan_first_free:
  "k + a < length (models s) \<Longrightarrow> currentKeyIndex s < length (models s) \<Longrightarrow>
   (currentKeyIndex s + k) mod length (models s) \<notin> exhaustedKeys s \<Longrightarrow>
   (\<forall>i<k. (currentKeyIndex s + i) mod length (models s) \<in> exhaustedKeys s) \<Longrightarrow>
   getNextModel_scan a s =
     (Some (models s ! ((currentKeyIndex s + k) mod length (models s))),
      s\<lparr>currentKeyIndex := (currentKeyIndex s + k) mod length (models s)\<rparr>)"
proof (induction k arbitrary: a s)
  case 0
  then show ?case
    by (subst getNextModel_scan.simps) (simp add: at_index_def)
next
  case (Suc k)
  let ?n = "length (models s)"
  let ?s' = "s\<lparr>currentKeyIndex := (currentKeyIndex s + 1) mod ?n\<rparr>"
  from Suc.prems have npos: "0 < ?n" by linarith
  from Suc.prems have ex: "currentKeyIndex s \<in> exhaustedKeys s"
    by (metis add.right_neutral mod_less zero_less_Suc)
  have shift: "((currentKeyIndex s + 1) mod ?n + j) mod ?n = (currentKeyIndex s + Suc j) mod ?n" for j
    by (simp add: mod_add_left_eq)
  have "getNextModel_scan (a + 1) ?s' =
      (Some (models ?s' ! ((currentKeyIndex ?s' + k) mod length (models ?s'))),
       ?s'\<lparr>currentKeyIndex := (currentKeyIndex ?s' + k) mod length (models ?s')\<rparr>)"
  proof (rule Suc.IH)
    show "k + (a + 1) < length (models ?s')" using Suc.prems by simp
    show "currentKeyIndex ?s' < length (models ?s')" using npos by simp
    show "(currentKeyIndex ?s' + k) mod length (models ?s') \<notin> exhaustedKeys ?s'"
      using Suc.prems shift [of k] by simp
    show "\<forall>i<k. (currentKeyIndex ?s' + i) mod length (models ?s') \<in> exhaustedKeys ?s'"
    proof (intro allI impI)
      fix i assume "i < k"
      then have "Suc i < Suc k" by simp
      with Suc.prems(4) have "(currentKeyIndex s + Suc i) mod ?n \<in> exhaustedKeys s" by blast
      then show "(currentKeyIndex ?s' + i) mod length (models ?s') \<in> exhaustedKeys ?s'"
        using shift [of i] by simp
    qed
  qed
  then show ?case
    using Suc.prems ex shift [of k]
    by (subst getNextModel_scan.simps) simp
qed

lemma scan_all_exhausted:
  "a \<le> length (models s) \<Longrightarrow> currentKeyIndex s < length (models s) \<Longrightarrow>
   (\<forall>i<length (models s) - a. (currentKeyIndex s + i) mod length (models s) \<in> exhaustedKeys s) \<Longrightarrow>
   getNextModel_scan a s = (at_index (models s) 0, s\<lparr>exhaustedKeys := {}, currentKeyIndex := 0\<rparr>)"
proof (induction a s rule: getNextModel_scan.induct)
  case (1 attempts s)
  let ?n = "length (models s)"
  show ?case
  proof (cases "attempts < ?n")
    case False
    then show ?thesis by (subst getNextModel_scan.simps) simp
  next
    case True
    let ?s' = "s\<lparr>currentKeyIndex := (currentKeyIndex s + 1) mod ?n\<rparr>"
    from True have npos: "0 < ?n" by linarith
    from True have "0 < ?n - attempts" by simp
    with "1.prems"(3) have "(currentKeyIndex s + 0) mod ?n \<in> exhaustedKeys s" by blast
    with "1.prems"(2) have ex: "currentKeyIndex s \<in> exhaustedKeys s" by simp
    have shift: "((currentKeyIndex s + 1) mod ?n + j) mod ?n = (currentKeyIndex s + Suc j) mod ?n" for j
      by (simp add: mod_add_left_eq)
    have "getNextModel_scan (attempts + 1) ?s' =
        (at_index (models ?s') 0, ?s'\<lparr>exhaustedKeys := {}, currentKeyIndex := 0\<rparr>)"
    proof (rule "1.IH")
      show "attempts < ?n" by (rule True)
      show "\<not> currentKeyIndex s \<notin> exhaustedKeys s" using ex by simp
      show "attempts + 1 \<le> length (models ?s')" using True by simp
      show "currentKeyIndex ?s' < length (models ?s')" using npos by simp
      show "\<forall>i<length (models ?s') - (attempts + 1).
          (currentKeyIndex ?s' + i) mod length (models ?s') \<in> exhaustedKeys ?s'"
      proof (intro allI impI)
        fix i assume "i < length (models ?s') - (attempts + 1)"
        then have "Suc i < ?n - attempts" by simp
        with "1.prems"(3) have "(currentKeyIndex s + Suc i) mod ?n \<in> exhaustedKeys s" by blast
        then show "(currentKeyIndex ?s' + i) mod length (models ?s') \<in> exhaustedKeys ?s'"
          using shift [of i] by simp
      qed
    qed
    then show ?thesis
      using True ex by (subst getNextModel_scan.simps) simp
  qed
qed


lemma fold_markKeyExhausted:
  "models (fold markKeyExhausted ks s) = models s"
  "exhaustedKeys (fold markKeyExhausted ks s) = set ks \<union> exhaustedKeys s"
  "ks \<noteq> [] \<Longrightarrow> 0 < length (models s) \<Longrightarrow>
     currentKeyIndex (fold markKeyExhausted ks s) < length (models s)"
proof -
  show m: "models (fold markKeyExhausted ks s) = models s" for ks and s :: "'a llm_service_scheme"
    by (induction ks arbitrary: s) (simp_all add: markKeyExhausted_def)
  show "exhaustedKeys (fold markKeyExhausted ks s) = set ks \<union> exhaustedKeys s"
    by (induction ks arbitrary: s) (auto simp: markKeyExhausted_def)
  show "ks \<noteq> [] \<Longrightarrow> 0 < length (models s) \<Longrightarrow>
     currentKeyIndex (fold markKeyExhausted ks s) < length (models s)"
  proof (cases ks rule: rev_cases)
    case Nil
    then show "ks \<noteq> [] \<Longrightarrow> ?thesis" by simp
  next
    case (snoc ks' k)
    assume npos: "0 < length (models s)"
    let ?t = "fold markKeyExhausted ks' s"
    have "currentKeyIndex (markKeyExhausted k ?t) < length (models ?t)"
      using npos by (simp add: markKeyExhausted_def m)
    then show ?thesis using snoc by (simp add: m)
  qed
qed

text \<open>
  Claim C2, amended. With one credential \<open>getNextModel\<close> returns it and leaves the pool as
  it is. With \<open>N \<ge> 2\<close> credentials and \<open>currentKeyIndex < N\<close>: it returns the credential
  at \<open>currentKeyIndex\<close> if that one is not exhausted; otherwise it advances
  \<open>currentKeyIndex\<close> modulo \<open>N\<close>, fewer than \<open>N\<close> times, to the first index that is not
  exhausted and returns that credential; and if every index is exhausted (as after \<open>N\<close> calls
  of \<open>markKeyExhausted\<close> covering every index) it clears the exhausted set, sets
  \<open>currentKeyIndex\<close> to 0 and returns the credential at index 0.
\<close>

theorem getNextModel_rotation:
  "(length (models s) = 1 \<longrightarrow> getNextModel s = (Some (models s ! 0), s))
   \<and> (2 \<le> length (models s) \<and> currentKeyIndex s < length (models s) \<longrightarrow>
        (currentKeyIndex s \<notin> exhaustedKeys s \<longrightarrow>
           getNextModel s = (Some (models s ! currentKeyIndex s), s))
      \<and> (\<forall>k<length (models s).
           (currentKeyIndex s + k) mod length (models s) \<notin> exhaustedKeys s \<and>
           (\<forall>i<k. (currentKeyIndex s + i) mod length (models s) \<in> exhaustedKeys s) \<longrightarrow>
           getNextModel s =
             (Some (models s ! ((currentKeyIndex s + k) mod length (models s))),
              s\<lparr>currentKeyIndex := (currentKeyIndex s + k) mod length (models s)\<rparr>))
      \<and> ((\<forall>i<length (models s). i \<in> exhaustedKeys s) \<longrightarrow>
           getNextModel s =
             (Some (models s ! 0), s\<lparr>exhaustedKeys := {}, currentKeyIndex := 0\<rparr>)))
   \<and> (2 \<le> length (models s) \<longrightarrow>
        getNextModel (fold markKeyExhausted [0..<length (models s)] s) =
          (Some (models s ! 0),
           (fold markKeyExhausted [0..<length (models s)] s)
             \<lparr>exhaustedKeys := {}, currentKeyIndex := 0\<rparr>))"
proof (intro conjI impI)
  assume "length (models s) = 1"
  then show "getNextModel s = (Some (models s ! 0), s)"
    by (simp add: getNextModel_def at_index_def)
next
  assume h: "2 \<le> length (models s) \<and> currentKeyIndex s < length (models s)"
  assume free: "currentKeyIndex s \<notin> exhaustedKeys s"
  from h have npos: "0 < length (models s)" by linarith
  have "getNextModel_scan 0 s = (Some (models s ! ((currentKeyIndex s + 0) mod length (models s))),
      s\<lparr>currentKeyIndex := (currentKeyIndex s + 0) mod length (models s)\<rparr>)"
    by (rule scan_first_free) (use h free npos in simp_all)
  moreover from h have "length (models s) \<noteq> 0 \<and> length (models s) \<noteq> 1" by linarith
  ultimately show "getNextModel s = (Some (models s ! currentKeyIndex s), s)"
    using h by (simp add: getNextModel_def)
next
  assume h: "2 \<le> length (models s) \<and> currentKeyIndex s < length (models s)"
  show "\<forall>k<length (models s).
           (currentKeyIndex s + k) mod length (models s) \<notin> exhaustedKeys s \<and>
           (\<forall>i<k. (currentKeyIndex s + i) mod length (models s) \<in> exhaustedKeys s) \<longrightarrow>
           getNextModel s =
             (Some (models s ! ((currentKeyIndex s + k) mod length (models s))),
              s\<lparr>currentKeyIndex := (currentKeyIndex s + k) mod length (models s)\<rparr>)"
  proof (intro allI impI)
    fix k
    assume k: "k < length (models s)"
      and f: "(currentKeyIndex s + k) mod length (models s) \<notin> exhaustedKeys s \<and>
           (\<forall>i<k. (currentKeyIndex s + i) mod length (models s) \<in> exhaustedKeys s)"
    have "getNextModel_scan 0 s =
        (Some (models s ! ((currentKeyIndex s + k) mod length (models s))),
         s\<lparr>currentKeyIndex := (currentKeyIndex s + k) mod length (models s)\<rparr>)"
      by (rule scan_first_free) (use h k f in simp_all)
    moreover from h have "length (models s) \<noteq> 0 \<and> length (models s) \<noteq> 1" by linarith
    ultimately show "getNextModel s =
             (Some (models s ! ((currentKeyIndex s + k) mod length (models s))),
              s\<lparr>currentKeyIndex := (currentKeyIndex s + k) mod length (models s)\<rparr>)"
      by (simp add: getNextModel_def)
  qed
next
  assume h: "2 \<le> length (models s) \<and> currentKeyIndex s < length (models s)"
  assume all: "\<forall>i<length (models s). i \<in> exhaustedKeys s"
  from h have npos: "0 < length (models s)" by linarith
  have cyc: "\<forall>i<length (models s) - 0.
      (currentKeyIndex s + i) mod length (models s) \<in> exhaustedKeys s"
    using all npos by simp
  have "getNextModel_scan 0 s =
      (at_index (models s) 0, s\<lparr>exhaustedKeys := {}, currentKeyIndex := 0\<rparr>)"
    by (rule scan_all_exhausted) (use h cyc in simp_all)
  moreover from h have "length (models s) \<noteq> 0 \<and> length (models s) \<noteq> 1" by linarith
  ultimately show "getNextModel s = (Some (models s ! 0), s\<lparr>exhaustedKeys := {}, currentKeyIndex := 0\<rparr>)"
    by (simp add: getNextModel_def at_index_def)
next
  assume h: "2 \<le> length (models s)"
  let ?t = "fold markKeyExhausted [0..<length (models s)] s"
  have m: "models ?t = models s" by (rule fold_markKeyExhausted(1))
  have c: "currentKeyIndex ?t < length (models s)"
    by (rule fold_markKeyExhausted(3)) (use h in auto)
  from h have npos: "0 < length (models s)" by linarith
  have e: "\<forall>i<length (models ?t) - 0.
      (currentKeyIndex ?t + i) mod length (models ?t) \<in> exhaustedKeys ?t"
    using npos by (simp add: fold_markKeyExhausted(1,2))
  have "getNextModel_scan 0 ?t =
      (at_index (models ?t) 0, ?t\<lparr>exhaustedKeys := {}, currentKeyIndex := 0\<rparr>)"
    by (rule scan_all_exhausted) (use m c e in simp_all)
  moreover from h have "length (models s) \<noteq> 0 \<and> length (models s) \<noteq> 1" by linarith
  ultimately show "getNextModel ?t = (Some (models s ! 0), ?t\<lparr>exhaustedKeys := {}, currentKeyIndex := 0\<rparr>)"
    using m by (simp add: getNextModel_def at_index_def)
qed

text \<open>
  The claim as stated fails for a pool of one credential: with index 0 exhausted, every
  index of the pool is exhausted, and \<open>getNextModel\<close> returns the credential and leaves
  index 0 in the exhausted set.
\<close>

theorem getNextModel_single_key_counterexample:
  "length (models \<lparr>models = [''key-1''], currentKeyIndex = 0, exhaustedKeys = {0}\<rparr>) = 1
   \<and> 0 \<in> exhaustedKeys \<lparr>models = [''key-1''], currentKeyIndex = 0, exhaustedKeys = {0}\<rparr>
   \<and> getNextModel \<lparr>models = [''key-1''], currentKeyIndex = 0, exhaustedKeys = {0}\<rparr> =
       (Some ''key-1'', \<lparr>models = [''key-1''], currentKeyIndex = 0, exhaustedKeys = {0}\<rparr>)
   \<and> exhaustedKeys (snd (getNextModel
         \<lparr>models = [''key-1''], currentKeyIndex = 0, exhaustedKeys = {0}\<rparr>)) = {0}"
  by (simp add: getNextModel_def at_index_def)

theorem getNextModel_rotation_witness:
  "getNextModel \<lparr>models = [''key-1''], currentKeyIndex = 0, exhaustedKeys = {}\<rparr> =
     (Some ''key-1'', \<lparr>models = [''key-1''], currentKeyIndex = 0, exhaustedKeys = {}\<rparr>)
   \<and> getNextModel \<lparr>models = [''key-1'', ''key-2'', ''key-3''], currentKeyIndex = 1,
                    exhaustedKeys = {}\<rparr> =
     (Some ''key-2'', \<lparr>models = [''key-1'', ''key-2'', ''key-3''], currentKeyIndex = 1,
                      exhaustedKeys = {}\<rparr>)
   \<and> getNextModel \<lparr>models = [''key-1'', ''key-2'', ''key-3''], currentKeyIndex = 1,
                    exhaustedKeys = {1, 2}\<rparr> =
     (Some ''key-1'', \<lparr>models = [''key-1'', ''key-2'', ''key-3''], currentKeyIndex = 0,
                      exhaustedKeys = {1, 2}\<rparr>)
   \<and> getNextModel \<lparr>models = [''key-1'', ''key-2'', ''key-3''], currentKeyIndex = 1,
                    exhaustedKeys = {0, 1, 2}\<rparr> =
     (Some ''key-1'', \<lparr>models = [''key-1'', ''key-2'', ''key-3''], currentKeyIndex = 0,
                      exhaustedKeys = {}\<rparr>)
   \<and> getNextModel (fold markKeyExhausted [0..<2]
         \<lparr>models = [''key-1'', ''key-2''], currentKeyIndex = 0, exhaustedKeys = {}\<rparr>) =
     (Some ''key-1'', \<lparr>models = [''key-1'', ''key-2''], currentKeyIndex = 0, exhaustedKeys = {}\<rparr>)"
proof -
  let ?one = "\<lparr>models = [''key-1''], currentKeyIndex = 0, exhaustedKeys = {}\<rparr>"
  let ?a = "\<lparr>models = [''key-1'', ''key-2'', ''key-3''], currentKeyIndex = 1, exhaustedKeys = {}\<rparr>"
  let ?b = "\<lparr>models = [''key-1'', ''key-2'', ''key-3''], currentKeyIndex = 1, exhaustedKeys = {1, 2}\<rparr>"
  let ?c = "\<lparr>models = [''key-1'', ''key-2'', ''key-3''], currentKeyIndex = 1, exhaustedKeys = {0, 1, 2}\<rparr>"
  let ?d = "\<lparr>models = [''key-1'', ''key-2''], currentKeyIndex = 0, exhaustedKeys = {}\<rparr>"
  have "length (models ?one) = 1" by simp
  with getNextModel_rotation [of ?one]
  have "getNextModel ?one = (Some (models ?one ! 0), ?one)" by blast
  then have 1: "getNextModel ?one = (Some ''key-1'', ?one)" by simp
  have pa: "2 \<le> length (models ?a) \<and> currentKeyIndex ?a < length (models ?a)" by simp
  have fa: "currentKeyIndex ?a \<notin> exhaustedKeys ?a" by simp
  from getNextModel_rotation [of ?a] pa fa
  have "getNextModel ?a = (Some (models ?a ! currentKeyIndex ?a), ?a)" by blast
  then have 2: "getNextModel ?a = (Some ''key-2'', ?a)" by simp
  have pb: "2 \<le> length (models ?b) \<and> currentKeyIndex ?b < length (models ?b)" by simp
  have kb: "2 < length (models ?b)" by simp
  have fb: "(currentKeyIndex ?b + 2) mod length (models ?b) \<notin> exhaustedKeys ?b \<and>
      (\<forall>i<2. (currentKeyIndex ?b + i) mod length (models ?b) \<in> exhaustedKeys ?b)"
    by (simp add: less_Suc_eq numeral_2_eq_2)
  from getNextModel_rotation [of ?b] pb kb fb
  have "getNextModel ?b =
      (Some (models ?b ! ((currentKeyIndex ?b + 2) mod length (models ?b))),
       ?b\<lparr>currentKeyIndex := (currentKeyIndex ?b + 2) mod length (models ?b)\<rparr>)" by blast
  then have 3: "getNextModel ?b = (Some ''key-1'', ?b\<lparr>currentKeyIndex := 0\<rparr>)" by simp
  have pc: "2 \<le> length (models ?c) \<and> currentKeyIndex ?c < length (models ?c)" by simp
  have fc: "\<forall>i<length (models ?c). i \<in> exhaustedKeys ?c"
    by (simp add: less_Suc_eq numeral_3_eq_3)
  from getNextModel_rotation [of ?c] pc fc
  have "getNextModel ?c = (Some (models ?c ! 0), ?c\<lparr>exhaustedKeys := {}, currentKeyIndex := 0\<rparr>)"
    by blast
  then have 4: "getNextModel ?c = (Some ''key-1'', ?c\<lparr>exhaustedKeys := {}, currentKeyIndex := 0\<rparr>)"
    by simp
  have pd: "2 \<le> length (models ?d)" by simp
  from getNextModel_rotation [of ?d] pd
  have "getNextModel (fold markKeyExhausted [0..<length (models ?d)] ?d) =
      (Some (models ?d ! 0),
       (fold markKeyExhausted [0..<length (models ?d)] ?d)\<lparr>exhaustedKeys := {}, currentKeyIndex := 0\<rparr>)"
    by blast
  then have 5: "getNextModel (fold markKeyExhausted [0..<2] ?d) = (Some ''key-1'', ?d)"
    by (simp add: markKeyExhausted_def upt_rec numeral_2_eq_2)
  show ?thesis using 1 2 3 4 5 by simp
qed

section \<open>Properties of the credential list parser\<close>

lemma js_split_no_separator:
  assumes "\<forall>x\<in>set e. \<not> isSeparator x"
  shows "js_split e = [e]"
proof -
  from assms have d: "dropWhile (\<lambda>c. \<not> isSeparator c) e = []" by simp
  from assms have t: "takeWhile (\<lambda>c. \<not> isSeparator c) e = e" by simp
  show ?thesis by (subst js_split.simps) (simp add: d t)
qed

lemma js_split_append:
  assumes "\<forall>x\<in>set e. \<not> isSeparator x" and "isSeparator c"
  shows "js_split (e @ c # r) = e # js_split r"
proof -
  from assms have d: "dropWhile (\<lambda>c. \<not> isSeparator c) (e @ c # r) = c # r"
    by simp
  from assms have t: "takeWhile (\<lambda>c. \<not> isSeparator c) (e @ c # r) = e"
    by (simp add: takeWhile_tail)
  show ?thesis by (subst js_split.simps) (simp add: d t)
qed

lemma js_split_join:
  "\<forall>x\<in>set e. \<not> isSeparator x \<Longrightarrow>
   \<forall>(c, e')\<in>set rest. isSeparator c \<and> (\<forall>x\<in>set e'. \<not> isSeparator x) \<Longrightarrow>
   js_split (join_entries e rest) = e # map snd rest"
proof (induction e rest rule: join_entries.induct)
  case (1 e)
  then show ?case by (simp add: js_split_no_separator)
next
  case (2 e c e' rest)
  then show ?case by (simp add: js_split_append)
qed

lemma last_dropWhile:
  "dropWhile P xs \<noteq> [] \<Longrightarrow> last (dropWhile P xs) = last xs"
  by (metis last_appendR takeWhile_dropWhile_id)

lemma trim_ends:
  assumes ne: "trim s \<noteq> []"
  shows "\<not> isWhiteSpace (hd (trim s)) \<and> \<not> isWhiteSpace (last (trim s))"
proof -
  let ?d = "dropWhile isWhiteSpace s"
  let ?r = "dropWhile isWhiteSpace (rev ?d)"
  from ne have r: "?r \<noteq> []" by (simp add: trim_def)
  then have "\<not> isWhiteSpace (hd ?r)" by (rule hd_dropWhile)
  moreover have "last (trim s) = hd ?r" using r by (simp add: trim_def last_rev)
  ultimately have a: "\<not> isWhiteSpace (last (trim s))" by simp
  from r have dne: "?d \<noteq> []" by (cases ?d) simp_all
  then have hdd: "\<not> isWhiteSpace (hd ?d)" by (rule hd_dropWhile)
  have "hd (trim s) = last ?r" using r by (simp add: trim_def hd_rev)
  also have "\<dots> = last (rev ?d)" using r by (rule last_dropWhile)
  also have "\<dots> = hd ?d" using dne by (simp add: last_rev)
  finally have "\<not> isWhiteSpace (hd (trim s))" using hdd by simp
  with a show ?thesis by simp
qed

text \<open>
  Claim C9. For every value of the configuration variable, \<open>getApiKeys\<close> splits it at
  commas and newlines, trims each entry and drops the entries that are empty or equal to
  the placeholder \<^verbatim>\<open>your-api-key-here\<close>: a value written as entries joined by commas or
  newlines yields the trimmed entries that are kept, in order; a single key without a
  separator yields a one-element list; a missing value yields the empty list; and every
  key returned is non-empty, is not the placeholder, and has no white space at either end.
\<close>

theorem getApiKeys_parse:
  "getApiKeys None = []
   \<and> ((\<forall>x\<in>set e. \<not> isSeparator x) \<and>
       (\<forall>(c, e')\<in>set rest. isSeparator c \<and> (\<forall>x\<in>set e'. \<not> isSeparator x)) \<longrightarrow>
       getApiKeys (Some (join_entries e rest)) =
         filter (\<lambda>key. key \<noteq> [] \<and> key \<noteq> ''your-api-key-here'') (map trim (e # map snd rest)))
   \<and> ((\<forall>x\<in>set e. \<not> isSeparator x) \<and> trim e \<noteq> [] \<and> trim e \<noteq> ''your-api-key-here'' \<longrightarrow>
       getApiKeys (Some e) = [trim e])
   \<and> (\<forall>key\<in>set (getApiKeys v).
         key \<noteq> [] \<and> key \<noteq> ''your-api-key-here'' \<and>
         \<not> isWhiteSpace (hd key) \<and> \<not> isWhiteSpace (last key))"
proof -
  have none: "getApiKeys None = []" by (simp add: getApiKeys_def)
  have joined: "getApiKeys (Some (join_entries e rest)) =
         filter (\<lambda>key. key \<noteq> [] \<and> key \<noteq> ''your-api-key-here'') (map trim (e # map snd rest))"
    if h: "(\<forall>x\<in>set e. \<not> isSeparator x) \<and>
       (\<forall>(c, e')\<in>set rest. isSeparator c \<and> (\<forall>x\<in>set e'. \<not> isSeparator x))"
  proof (cases "join_entries e rest = []")
    case True
    then have "e = [] \<and> rest = []" by (cases rest) auto
    then show ?thesis by (simp add: getApiKeys_def trim_def)
  next
    case False
    from h have "js_split (join_entries e rest) = e # map snd rest"
      by (simp add: js_split_join)
    with False show ?thesis by (simp add: getApiKeys_def)
  qed
  have single: "getApiKeys (Some e) = [trim e]"
    if h: "(\<forall>x\<in>set e. \<not> isSeparator x) \<and> trim e \<noteq> [] \<and> trim e \<noteq> ''your-api-key-here''"
  proof -
    from h have "e \<noteq> []" by (auto simp: trim_def)
    with h show ?thesis by (simp add: getApiKeys_def js_split_no_separator)
  qed
  have clean: "key \<noteq> [] \<and> key \<noteq> ''your-api-key-here'' \<and>
         \<not> isWhiteSpace (hd key) \<and> \<not> isWhiteSpace (last key)"
    if k: "key \<in> set (getApiKeys v)" for key
  proof -
    from k obtain w where "key = trim w" and "key \<noteq> []" and "key \<noteq> ''your-api-key-here''"
      by (auto simp: getApiKeys_def split: option.splits if_splits)
    then show ?thesis using trim_ends [of w] by simp
  qed
  from none joined single clean show ?thesis by blast
qed

theorem getApiKeys_parse_witness:
  "getApiKeys (Some '' key-A ,key-B'' ) = [''key-A'', ''key-B'']
   \<and> getApiKeys (Some ''AIza-single-key'') = [''AIza-single-key'']"
proof -
  have a: "(\<forall>x\<in>set '' key-A ''. \<not> isSeparator x) \<and>
       (\<forall>(c, e')\<in>set [(CHR '','', ''key-B'')]. isSeparator c \<and> (\<forall>x\<in>set e'. \<not> isSeparator x))"
    by (simp add: isSeparator_def)
  have b: "(\<forall>x\<in>set ''AIza-single-key''. \<not> isSeparator x) \<and> trim ''AIza-single-key'' \<noteq> [] \<and>
      trim ''AIza-single-key'' \<noteq> ''your-api-key-here''"
    by (simp add: isSeparator_def trim_def isWhiteSpace_def)
  from getApiKeys_parse [of "'' key-A ''" "[(CHR '','', ''key-B'')]"] a
  have "getApiKeys (Some (join_entries '' key-A '' [(CHR '','', ''key-B'')])) =
         filter (\<lambda>key. key \<noteq> [] \<and> key \<noteq> ''your-api-key-here'')
           (map trim ('' key-A '' # map snd [(CHR '','', ''key-B'')]))" by blast
  then have 1: "getApiKeys (Some '' key-A ,key-B'' ) = [''key-A'', ''key-B'']"
    by (simp add: trim_def isWhiteSpace_def)
  from getApiKeys_parse [of "''AIza-single-key''"] b
  have "getApiKeys (Some ''AIza-single-key'') = [trim ''AIza-single-key'']" by blast
  then have 2: "getApiKeys (Some ''AIza-single-key'') = [''AIza-single-key'']"
    by (simp add: trim_def isWhiteSpace_def)
  from 1 2 show ?thesis by simp
qed

section \<open>Properties of the payload transform\<close>

lemma normalizePart_part_object: "normalizePart (part_object p) = wire_part p"
  by (cases p) (simp_all add: normalizePart_def)

lemma transformContent_turn_object: "transformContent (turn_object t) = Inr (wire_turn t)"
  by (simp add: transformContent_def turn_object_def wire_turn_def normalizeParts_def
      normalizePart_part_object)

lemma map_throwing_turns:
  "map_throwing transformContent (map turn_object ts) = Inr (map wire_turn ts)"
  by (induction ts) (simp_all add: transformContent_turn_object)

lemma payload_roles_wire:
  "payload_roles (wire_payload r) = map (\<lambda>t. JStr (role_name (turn_role t))) (req_contents r)"
  by (cases "req_systemInstruction r")
     (simp_all add: payload_roles_def wire_payload_def wire_turn_def)

lemma part_text_wire: "get (wire_part p) ''text'' = part_text p"
  by (cases p) simp_all

lemma payload_texts_wire:
  "payload_texts (wire_payload r) = map (\<lambda>t. map part_text (turn_parts t)) (req_contents r)"
  by (cases "req_systemInstruction r")
     (simp_all add: payload_texts_def wire_payload_def wire_turn_def part_text_wire)

text \<open>
  Claim C8, amended. For every Request (system instruction, ordered contents with roles
  and parts, generation config), \<open>transformRequestForHttpTransport\<close> returns the payload
  \<open>wire_payload\<close>: the top-level fields are named \<^verbatim>\<open>system_instruction\<close>, \<^verbatim>\<open>contents\<close> and
  \<^verbatim>\<open>generation_config\<close>; a text part becomes \<^verbatim>\<open>{text: ...}\<close>, an inline-data part
  \<^verbatim>\<open>{inline_data: ...}\<close> and a file part \<^verbatim>\<open>{file_data: ...}\<close>; the generation config is copied
  with the field names it has in the request (\<^verbatim>\<open>maxOutputTokens\<close>, \<^verbatim>\<open>topK\<close>, \<^verbatim>\<open>topP\<close>), not
  renamed; and the roles and the text of every turn are preserved in order.
\<close>

theorem transformRequestForHttpTransport_wire:
  "transformRequestForHttpTransport (request_object r) = Inr (wire_payload r)
   \<and> payload_roles (wire_payload r) = map (\<lambda>t. JStr (role_name (turn_role t))) (req_contents r)
   \<and> payload_texts (wire_payload r) = map (\<lambda>t. map part_text (turn_parts t)) (req_contents r)"
proof -
  have "transformRequestForHttpTransport (request_object r) = Inr (wire_payload r)"
    by (cases "req_systemInstruction r")
       (simp_all add: transformRequestForHttpTransport_def request_object_def wire_payload_def
          map_throwing_turns normalizeParts_def normalizePart_def copyIfTruthy_def)
  then show ?thesis by (simp add: payload_roles_wire payload_texts_wire)
qed

text \<open>
  The claim as stated fails on the field names of the generation config: the payload of the
  default request carries \<^verbatim>\<open>maxOutputTokens\<close> and \<^verbatim>\<open>topK\<close>, and no \<^verbatim>\<open>max_output_tokens\<close> or
  \<^verbatim>\<open>top_k\<close>.
\<close>

theorem transformRequestForHttpTransport_camelCase_counterexample:
  "(case transformRequestForHttpTransport (request_object default_request) of
      Inl e \<Rightarrow> False
    | Inr payload \<Rightarrow>
        get (get payload ''generation_config'') ''maxOutputTokens'' = JNum 8192
        \<and> get (get payload ''generation_config'') ''max_output_tokens'' = JUndefined
        \<and> get (get payload ''generation_config'') ''topK'' = JNum 40
        \<and> get (get payload ''generation_config'') ''top_k'' = JUndefined)
   \<and> \<not> is_snake_case ''maxOutputTokens'' \<and> \<not> is_snake_case ''topK''"
  by (simp add: transformRequestForHttpTransport_def request_object_def default_request_def
      map_throwing_turns normalizeParts_def normalizePart_def copyIfTruthy_def
      generation_config_properties_def is_snake_case_def turn_object_def transformContent_def)

section \<open>Properties of the response validation\<close>

lemma get_JStr_truthy: "get v key = JStr t \<Longrightarrow> truthy v"
  by (cases v) simp_all

lemma templateValue_nat:
  "n < 2 ^ 53 \<Longrightarrow> templateValue (JNum (of_nat n)) = Some (show_nat n)"
proof -
  assume "n < 2 ^ 53"
  then have "(of_nat n :: real) < of_nat (2 ^ 53)" by (simp only: of_nat_less_iff)
  then have "(of_nat n :: real) < 2 ^ 53" by simp
  then show ?thesis by (simp add: templateValue_def)
qed

text \<open>
  Claim C6, amended. For every reply body of the raw transport that is not \<^verbatim>\<open>null\<close>, has
  no truthy \<^verbatim>\<open>error\<close> member, and whose first candidate is a value other than \<^verbatim>\<open>null\<close>
  with the finish reason \<^verbatim>\<open>MAX_TOKENS\<close>: if the candidate has no content, the handler
  rejects with the ordinary missing-content error; if the content's parts start with a
  part whose text is not blank, it resolves with that text, trimmed; if the first part has
  no text, it rejects with the missing-text error, whatever the later parts hold (only the
  first part is read); if the content has no parts (none, not an array, or an empty
  array), it rejects with the truncation error, which carries the thoughts token count
  and the total token count of \<^verbatim>\<open>usageMetadata\<close> (0 where absent) and not with the
  missing-parts error; and for counts below \<open>2 ^ 53\<close> the message of that error prints
  both counts in decimal.
\<close>

theorem makeAlternativeRequest_truncated:
  assumes "\<not> nullish response"
    and "\<not> truthy (get response ''error'')"
    and "get response ''candidates'' = JArr (candidate # others)"
    and "\<not> nullish candidate"
    and "get candidate ''finishReason'' = JStr ''MAX_TOKENS''"
  shows "(\<not> truthy (get candidate ''content'')
            \<longrightarrow> makeAlternativeRequest_onBody response = Inl MissingContent)
       \<and> (truthy (get candidate ''content'') \<and>
          get (get candidate ''content'') ''parts'' = JArr (firstPart # rest) \<and>
          get firstPart ''text'' = JStr text \<and> trim text \<noteq> []
            \<longrightarrow> makeAlternativeRequest_onBody response = Inr (trim text))
       \<and> (truthy (get candidate ''content'') \<and>
          get (get candidate ''content'') ''parts'' = JArr (firstPart # rest) \<and>
          \<not> truthy (get firstPart ''text'')
            \<longrightarrow> makeAlternativeRequest_onBody response = Inl PartMissingText)
       \<and> (truthy (get candidate ''content'') \<and>
          \<not> nonEmptyArray (get (get candidate ''content'') ''parts'')
            \<longrightarrow> makeAlternativeRequest_onBody response =
                  Inl (TruncatedNoContent
                    (orZero (get (if truthy (get response ''usageMetadata'')
                                  then get response ''usageMetadata'' else JObj [])
                               ''thoughtsTokenCount''))
                    (orZero (get (if truthy (get response ''usageMetadata'')
                                  then get response ''usageMetadata'' else JObj [])
                               ''totalTokenCount''))))
       \<and> (a < 2 ^ 53 \<and> b < 2 ^ 53
            \<longrightarrow> rejection_message (TruncatedNoContent (JNum (of_nat a)) (JNum (of_nat b))) =
                  Some (''Response truncated: MAX_TOKENS limit reached with no content. Thoughts tokens: ''
                        @ show_nat a @ '', Total tokens: '' @ show_nat b
                        @ ''. Consider increasing maxOutputTokens significantly.''))"
proof -
  have c: "truthy (get response ''candidates'')" using assms(3) by simp
  have noContent: "makeAlternativeRequest_onBody response = Inl MissingContent"
    if "\<not> truthy (get candidate ''content'')"
    using assms c that by (simp add: makeAlternativeRequest_onBody_def)
  have firstText: "makeAlternativeRequest_onBody response = Inr (trim text)"
    if h: "truthy (get candidate ''content'') \<and>
          get (get candidate ''content'') ''parts'' = JArr (firstPart # rest) \<and>
          get firstPart ''text'' = JStr text \<and> trim text \<noteq> []"
  proof -
    from h have "text \<noteq> []" by (auto simp: trim_def)
    moreover from h have "truthy firstPart" by (blast intro: get_JStr_truthy)
    ultimately show ?thesis
      using assms c h by (simp add: makeAlternativeRequest_onBody_def Let_def)
  qed
  have firstNoText: "makeAlternativeRequest_onBody response = Inl PartMissingText"
    if h: "truthy (get candidate ''content'') \<and>
          get (get candidate ''content'') ''parts'' = JArr (firstPart # rest) \<and>
          \<not> truthy (get firstPart ''text'')"
    using assms c h by (simp add: makeAlternativeRequest_onBody_def Let_def)
  have noParts: "makeAlternativeRequest_onBody response =
                  Inl (TruncatedNoContent
                    (orZero (get (if truthy (get response ''usageMetadata'')
                                  then get response ''usageMetadata'' else JObj [])
                               ''thoughtsTokenCount''))
                    (orZero (get (if truthy (get response ''usageMetadata'')
                                  then get response ''usageMetadata'' else JObj [])
                               ''totalTokenCount'')))"
    if h: "truthy (get candidate ''content'') \<and>
          \<not> nonEmptyArray (get (get candidate ''content'') ''parts'')"
    using assms c h by (simp add: makeAlternativeRequest_onBody_def Let_def)
  have msg: "rejection_message (TruncatedNoContent (JNum (of_nat a)) (JNum (of_nat b))) =
                  Some (''Response truncated: MAX_TOKENS limit reached with no content. Thoughts tokens: ''
                        @ show_nat a @ '', Total tokens: '' @ show_nat b
                        @ ''. Consider increasing maxOutputTokens significantly.'')"
    if "a < 2 ^ 53 \<and> b < 2 ^ 53"
    using that by (simp add: templateValue_nat)
  from noContent firstText firstNoText noParts msg show ?thesis by blast
qed

text \<open>
  The claim as stated fails when the part with the text is not the first one: the
  truncated reply below has a text in its second part and is rejected.
\<close>

theorem makeAlternativeRequest_first_part_counterexample:
  "makeAlternativeRequest_onBody truncated_text_in_second_part = Inl PartMissingText"
  by (simp add: makeAlternativeRequest_onBody_def truncated_text_in_second_part_def Let_def)

theorem makeAlternativeRequest_truncated_witness:
  "makeAlternativeRequest_onBody truncated_with_text = Inr ''MergeSort is''
   \<and> makeAlternativeRequest_onBody truncated_text_in_second_part = Inl PartMissingText
   \<and> makeAlternativeRequest_onBody truncated_without_content = Inl MissingContent
   \<and> makeAlternativeRequest_onBody truncated_without_parts =
       Inl (TruncatedNoContent (JNum 8191) (JNum 8300))
   \<and> rejection_message (TruncatedNoContent (JNum 8191) (JNum 8300)) =
       Some ''Response truncated: MAX_TOKENS limit reached with no content. Thoughts tokens: 8191, Total tokens: 8300. Consider increasing maxOutputTokens significantly.''"
proof -
  let ?c1 = "JObj [(''content'', JObj [(''parts'', JArr [JObj [(''text'', JStr ''MergeSort is '')]])]),
                   (''finishReason'', JStr ''MAX_TOKENS'')]"
  let ?c2 = "JObj [(''content'', JObj [(''role'', JStr ''model'')]),
                   (''finishReason'', JStr ''MAX_TOKENS'')]"
  let ?c3 = "JObj [(''content'',
                          JObj [(''parts'', JArr [JObj [(''thought'', JBool True)],
                                                  JObj [(''text'', JStr ''MergeSort is '')]])]),
                        (''finishReason'', JStr ''MAX_TOKENS'')]"
  let ?c4 = "JObj [(''finishReason'', JStr ''MAX_TOKENS'')]"
  have t: "trim ''MergeSort is '' = ''MergeSort is''"
    by (simp add: trim_def isWhiteSpace_def)
  have 1: "makeAlternativeRequest_onBody truncated_with_text = Inr (trim ''MergeSort is '')"
    using makeAlternativeRequest_truncated [of truncated_with_text ?c1 "[]"
        "JObj [(''text'', JStr ''MergeSort is '')]" "[]" "''MergeSort is ''"] t
    by (simp add: truncated_with_text_def)
  have 2: "makeAlternativeRequest_onBody truncated_without_parts =
       Inl (TruncatedNoContent (JNum 8191) (JNum 8300))"
    using makeAlternativeRequest_truncated [of truncated_without_parts ?c2 "[]"]
    by (simp add: truncated_without_parts_def orZero_def)
  have 3: "makeAlternativeRequest_onBody truncated_text_in_second_part = Inl PartMissingText"
    using makeAlternativeRequest_truncated [of truncated_text_in_second_part ?c3 "[]"
        "JObj [(''thought'', JBool True)]" "[JObj [(''text'', JStr ''MergeSort is '')]]"]
    by (simp add: truncated_text_in_second_part_def)
  have 4: "makeAlternativeRequest_onBody truncated_without_content = Inl MissingContent"
    using makeAlternativeRequest_truncated [of truncated_without_content ?c4 "[]"]
    by (simp add: truncated_without_content_def)
  have "(8191::nat) < 2 ^ 53 \<and> (8300::nat) < 2 ^ 53" by simp
  with makeAlternativeRequest_truncated [of truncated_with_text ?c1 "[]" _ _ _ 8191 8300]
  have 5: "rejection_message (TruncatedNoContent (JNum (of_nat 8191)) (JNum (of_nat 8300))) =
       Some (''Response truncated: MAX_TOKENS limit reached with no content. Thoughts tokens: ''
                 @ show_nat 8191 @ '', Total tokens: '' @ show_nat 8300
                 @ ''. Consider increasing maxOutputTokens significantly.'')"
    by (simp add: truncated_with_text_def)
  have s1: "show_nat 8191 = ''8191''" by (simp add: show_nat.simps digit_char_def)
  have s2: "show_nat 8300 = ''8300''" by (simp add: show_nat.simps digit_char_def)
  from 1 2 3 4 5 t s1 s2 show ?thesis by simp
qed

section \<open>Properties of the orchestrator\<close>

lemma getNextModel_scan_frame:
  "getNextModel_scan a s = (m, s') \<Longrightarrow>
   \<exists>c e. s' = s\<lparr>currentKeyIndex := c, exhaustedKeys := e\<rparr>"
proof (induction a s arbitrary: m s' rule: getNextModel_scan.induct)
  case (1 attempts s)
  show ?case
  proof (cases "attempts < length (models s) \<and> currentKeyIndex s \<in> exhaustedKeys s")
    case True
    let ?s1 = "s\<lparr>currentKeyIndex := (currentKeyIndex s + 1) mod length (models s)\<rparr>"
    from True "1.prems" have "getNextModel_scan (attempts + 1) ?s1 = (m, s')"
      by (subst (asm) getNextModel_scan.simps) simp
    with True "1.IH" obtain c e where "s' = ?s1\<lparr>currentKeyIndex := c, exhaustedKeys := e\<rparr>"
      by blast
    then have "s' = s\<lparr>currentKeyIndex := c, exhaustedKeys := e\<rparr>" by simp
    then show ?thesis by blast
  next
    case False
    with "1.prems" have "s' = s \<or> s' = s\<lparr>exhaustedKeys := {}, currentKeyIndex := 0\<rparr>"
      by (subst (asm) getNextModel_scan.simps) (auto split: if_splits)
    then show ?thesis
    proof
      assume "s' = s"
      then have "s' = s\<lparr>currentKeyIndex := currentKeyIndex s, exhaustedKeys := exhaustedKeys s\<rparr>"
        by simp
      then show ?thesis by blast
    next
      assume "s' = s\<lparr>exhaustedKeys := {}, currentKeyIndex := 0\<rparr>"
      then have "s' = s\<lparr>currentKeyIndex := 0, exhaustedKeys := {}\<rparr>" by simp
      then show ?thesis by blast
    qed
  qed
qed

lemma getNextModel_frame:
  assumes "getNextModel s = (m, s')"
  shows "\<exists>c e. s' = s\<lparr>currentKeyIndex := c, exhaustedKeys := e\<rparr>"
proof (cases "length (models s) = 0 \<or> length (models s) = 1")
  case True
  with assms have "s' = s" by (auto simp: getNextModel_def split: if_splits)
  then have "s' = s\<lparr>currentKeyIndex := currentKeyIndex s, exhaustedKeys := exhaustedKeys s\<rparr>"
    by simp
  then show ?thesis by blast
next
  case False
  with assms have "getNextModel_scan 0 s = (m, s')"
    by (auto simp: getNextModel_def split: if_splits)
  then show ?thesis by (rule getNextModel_scan_frame)
qed

lemma getNextModel_world:
  fixes w :: world
  assumes "getNextModel w = (m, w1)"
  shows "events w1 = events w" "sdkCalls w1 = sdkCalls w" "httpsCalls w1 = httpsCalls w"
    "randomCalls w1 = randomCalls w" "models w1 = models w"
proof -
  from getNextModel_frame [OF assms]
  obtain c e where "w1 = w\<lparr>currentKeyIndex := c, exhaustedKeys := e\<rparr>" by blast
  then show "events w1 = events w" "sdkCalls w1 = sdkCalls w" "httpsCalls w1 = httpsCalls w"
    "randomCalls w1 = randomCalls w" "models w1 = models w"
    by simp_all
qed

lemma executeRequest_try_throws:
  "getNextModel w = (Some currentModel, w1) \<Longrightarrow>
   generateContent env (sdkCalls w1) currentModel = SdkThrows error \<Longrightarrow>
   executeRequest_try env w =
     (Inl error, w1\<lparr>sdkCalls := sdkCalls w1 + 1, events := events w1 @ [SdkRequest currentModel]\<rparr>)"
  by (simp add: executeRequest_try_def Let_def)

lemma catch_nonRetryable_throws:
  "\<not> isRetryable (analyzeError error) \<Longrightarrow>
   executeRequest_catch env request attempt None error w =
     (Throw \<lparr> final_message = ''Gemini API error (non-retryable): '' @ message error,
              errorAnalysis = Some (analyzeError error), originalError = Some error \<rparr>, w)"
  by (simp add: executeRequest_catch_def catch_nonRetryable_def Let_def)

lemma catch_backoff:
  "attempt \<noteq> maxRetries env \<Longrightarrow>
   catch_lastAttemptOrBackoff env attempt cki error errorInfo w =
     (Continue, w\<lparr>randomCalls := randomCalls w + 1,
                  events := events w @
                    [Delay (backoffDelay (isNetworkError errorInfo) attempt
                              (mathRandom env (randomCalls w) * 1000))]\<rparr>)"
  by (simp add: catch_lastAttemptOrBackoff_def Let_def)

lemma catch_rate_limit:
  assumes "type (analyzeError error) = RATE_LIMIT_ERROR" and "attempt \<noteq> maxRetries env"
  shows "executeRequest_catch env request attempt None error w =
     (Continue, w\<lparr>randomCalls := randomCalls w + 1,
                  events := events w @
                    [Delay (backoffDelay False attempt (mathRandom env (randomCalls w) * 1000))]\<rparr>)"
proof -
  from assms(1) have "isRetryable (analyzeError error)" "\<not> isNetworkError (analyzeError error)"
    by (simp_all add: analyzeError_flags)
  then show ?thesis
    using assms
    by (simp add: executeRequest_catch_def catch_nonRetryable_def catch_alternativeTransport_def
        catch_backoff Let_def)
qed

lemma catch_rate_limit_last:
  assumes "type (analyzeError error) = RATE_LIMIT_ERROR" and "attempt = maxRetries env"
  shows "executeRequest_catch env request attempt None error w =
     (Throw \<lparr> final_message = ''Gemini API failed after '' @ show_nat (maxRetries env) @
                '' attempts: '' @ message error,
              errorAnalysis = Some (analyzeError error), originalError = Some error \<rparr>, w)"
proof -
  from assms(1) have "isRetryable (analyzeError error)"
    by (simp add: analyzeError_flags)
  then show ?thesis
    using assms
    by (simp add: executeRequest_catch_def catch_nonRetryable_def catch_alternativeTransport_def
        catch_lastAttemptOrBackoff_def Let_def)
qed

lemma two_key_next: "getNextModel two_key_world = (Some ''client-1'', two_key_world)"
  by (simp add: getNextModel_def two_key_world_def getNextModel_scan.simps at_index_def)

lemma forbidden_type: "type (analyzeError forbidden_error) = AUTH_ERROR"
  by (simp add: forbidden_error_def newError_def analyzeError_def errorToString_def Let_def
      toLowerCase_def toLowerCase_char_def)

lemma quota_type: "type (analyzeError quota_error) = RATE_LIMIT_ERROR"
  by (simp add: quota_error_def analyzeError_def errorToString_def Let_def
      toLowerCase_def toLowerCase_char_def)

text \<open>
  Claim C4. When an attempt of \<open>executeRequest\<close> fails with an error that the classifier
  labels AUTH_ERROR or INVALID_REQUEST_ERROR, the loop ends at once with the terminal
  error that wraps it, whatever the attempt number and the retry budget: after the one
  request through the SDK the log gains no further request, no raw HTTPS request and no
  sleep, and the pool stays as \<open>getNextModel\<close> left it.
\<close>

theorem executeRequest_nonRetryable_aborts:
  assumes "attempt \<le> maxRetries env"
    and "getNextModel w = (Some currentModel, w1)"
    and "generateContent env (sdkCalls w1) currentModel = SdkThrows error"
    and "type (analyzeError error) = AUTH_ERROR \<or> type (analyzeError error) = INVALID_REQUEST_ERROR"
  shows "executeRequest_loop env request attempt lastFailure w =
           (Inl \<lparr> final_message = ''Gemini API error (non-retryable): '' @ message error,
                   errorAnalysis = Some (analyzeError error), originalError = Some error \<rparr>,
            w1\<lparr>sdkCalls := sdkCalls w + 1, events := events w @ [SdkRequest currentModel]\<rparr>)"
proof -
  from assms(4) have nr: "\<not> isRetryable (analyzeError error)"
    by (auto simp: analyzeError_flags)
  from assms(2) have fr: "events w1 = events w" "sdkCalls w1 = sdkCalls w"
    by (rule getNextModel_world)+
  show ?thesis
    using assms(1) executeRequest_try_throws [OF assms(2,3)] fr
    by (subst executeRequest_loop.simps)
       (simp add: currentKeyIndex_in_catch_def catch_nonRetryable_throws [OF nr])
qed

theorem executeRequest_nonRetryable_aborts_witness:
  "executeRequest (failing_env forbidden_error 5) (request_object default_request) two_key_world =
     (Inl \<lparr> final_message = ''Gemini API error (non-retryable): api key not valid: 403 forbidden'',
             errorAnalysis = Some (analyzeError forbidden_error),
             originalError = Some forbidden_error \<rparr>,
      two_key_world\<lparr>sdkCalls := 1, events := [SdkRequest ''client-1'']\<rparr>)"
proof -
  have "executeRequest_loop (failing_env forbidden_error 5) (request_object default_request) 1 None
          two_key_world =
        (Inl \<lparr> final_message = ''Gemini API error (non-retryable): '' @ message forbidden_error,
                errorAnalysis = Some (analyzeError forbidden_error),
                originalError = Some forbidden_error \<rparr>,
         two_key_world\<lparr>sdkCalls := sdkCalls two_key_world + 1,
                        events := events two_key_world @ [SdkRequest ''client-1'']\<rparr>)"
    by (rule executeRequest_nonRetryable_aborts [OF _ two_key_next])
       (simp_all add: failing_env_def forbidden_type)
  then show ?thesis
    by (simp add: executeRequest_def two_key_world_def forbidden_error_def newError_def)
qed

text \<open>
  Claim C1, which the source does not meet. When an attempt fails with an error
  classified RATE_LIMIT_ERROR and attempts remain, \<open>executeRequest\<close> marks no credential
  as exhausted and does not move to another one: the pool stays as \<open>getNextModel\<close> left
  it, the run sleeps the backoff delay, and the next iteration runs with the attempt
  number increased by one, so the failure consumes a retry.
\<close>

theorem executeRequest_rate_limit_retries_same_key:
  assumes "attempt < maxRetries env"
    and "getNextModel w = (Some currentModel, w1)"
    and "generateContent env (sdkCalls w1) currentModel = SdkThrows error"
    and "type (analyzeError error) = RATE_LIMIT_ERROR"
  shows "executeRequest_loop env request attempt lastFailure w =
           executeRequest_loop env request (attempt + 1) (Some (error, analyzeError error))
             (w1\<lparr>sdkCalls := sdkCalls w + 1, randomCalls := randomCalls w + 1,
                 events := events w @
                   [SdkRequest currentModel,
                    Delay (backoffDelay False attempt (mathRandom env (randomCalls w) * 1000))]\<rparr>)"
proof -
  from assms(2) have fr: "events w1 = events w" "sdkCalls w1 = sdkCalls w"
    "randomCalls w1 = randomCalls w"
    by (rule getNextModel_world)+
  from assms(1) have ne: "attempt \<noteq> maxRetries env" and le: "attempt \<le> maxRetries env" by simp_all
  show ?thesis
    using le executeRequest_try_throws [OF assms(2,3)] fr
    by (subst executeRequest_loop.simps)
       (simp add: currentKeyIndex_in_catch_def catch_rate_limit [OF assms(4) ne])
qed

theorem executeRequest_rate_limit_retries_same_key_witness:
  "executeRequest (failing_env quota_error 2) (request_object default_request) two_key_world =
     (Inl \<lparr> final_message =
               ''Gemini API failed after 2 attempts: 429 too many requests: quota exceeded'',
             errorAnalysis = Some (analyzeError quota_error),
             originalError = Some quota_error \<rparr>,
      two_key_world\<lparr>sdkCalls := 2, randomCalls := 1,
                     events := [SdkRequest ''client-1'', Delay 1500, SdkRequest ''client-1'']\<rparr>)"
proof -
  let ?env = "failing_env quota_error 2"
  let ?req = "request_object default_request"
  let ?w1 = "two_key_world\<lparr>sdkCalls := sdkCalls two_key_world + 1,
                 randomCalls := randomCalls two_key_world + 1,
                 events := events two_key_world @
                   [SdkRequest ''client-1'',
                    Delay (backoffDelay False 1 (mathRandom ?env (randomCalls two_key_world) * 1000))]\<rparr>"
  have first: "executeRequest_loop ?env ?req 1 None two_key_world =
      executeRequest_loop ?env ?req (1 + 1) (Some (quota_error, analyzeError quota_error)) ?w1"
    by (rule executeRequest_rate_limit_retries_same_key [OF _ two_key_next])
       (simp_all add: failing_env_def quota_type)
  have w1: "?w1 = two_key_world\<lparr>sdkCalls := 1, randomCalls := 1,
                    events := [SdkRequest ''client-1'', Delay 1500]\<rparr>"
    by (simp add: two_key_world_def failing_env_def backoffDelay_def)
  have nxt: "getNextModel (two_key_world\<lparr>sdkCalls := 1, randomCalls := 1,
                    events := [SdkRequest ''client-1'', Delay 1500]\<rparr>) =
      (Some ''client-1'', two_key_world\<lparr>sdkCalls := 1, randomCalls := 1,
                    events := [SdkRequest ''client-1'', Delay 1500]\<rparr>)"
    by (simp add: getNextModel_def two_key_world_def getNextModel_scan.simps at_index_def)
  have flags: "isRetryable (analyzeError quota_error)" "\<not> isNetworkError (analyzeError quota_error)"
    by (simp_all add: analyzeError_flags quota_type)
  have second: "executeRequest_loop ?env ?req 2 (Some (quota_error, analyzeError quota_error))
        (two_key_world\<lparr>sdkCalls := 1, randomCalls := 1,
                    events := [SdkRequest ''client-1'', Delay 1500]\<rparr>) =
      (Inl \<lparr> final_message =
               ''Gemini API failed after 2 attempts: 429 too many requests: quota exceeded'',
             errorAnalysis = Some (analyzeError quota_error),
             originalError = Some quota_error \<rparr>,
      two_key_world\<lparr>sdkCalls := 2, randomCalls := 1,
                     events := [SdkRequest ''client-1'', Delay 1500, SdkRequest ''client-1'']\<rparr>)"
  proof -
    have m: "maxRetries ?env = 2" "generateContent ?env = (\<lambda>n m. SdkThrows quota_error)"
      by (simp_all add: failing_env_def)
    have t: "executeRequest_try ?env (two_key_world\<lparr>sdkCalls := 1, randomCalls := 1,
                    events := [SdkRequest ''client-1'', Delay 1500]\<rparr>) =
        (Inl quota_error, two_key_world\<lparr>sdkCalls := 2, randomCalls := 1,
                     events := [SdkRequest ''client-1'', Delay 1500, SdkRequest ''client-1'']\<rparr>)"
      using executeRequest_try_throws [OF nxt, of ?env quota_error] m
      by (simp add: two_key_world_def)
    have c: "executeRequest_catch ?env ?req 2 None quota_error w =
        (Throw \<lparr> final_message = ''Gemini API failed after '' @ show_nat (maxRetries ?env) @
                '' attempts: '' @ message quota_error,
              errorAnalysis = Some (analyzeError quota_error), originalError = Some quota_error \<rparr>, w)"
      for w
      by (rule catch_rate_limit_last [OF quota_type]) (simp add: m)
    have msg: "''Gemini API failed after '' @ show_nat 2 @
                '' attempts: '' @ message quota_error =
          ''Gemini API failed after 2 attempts: 429 too many requests: quota exceeded''"
    proof -
      have "show_nat 2 = ''2''" by (subst show_nat.simps) (simp add: digit_char_def)
      then show ?thesis by (simp add: failing_env_def quota_error_def)
    qed
    show ?thesis
      by (subst executeRequest_loop.simps, subst t)
         (simp add: c currentKeyIndex_in_catch_def m(1) msg del: append.simps)
  qed
  have "executeRequest ?env ?req two_key_world =
      executeRequest_loop ?env ?req 1 None two_key_world"
    by (simp only: executeRequest_def)
  also note first
  also have "executeRequest_loop ?env ?req (1 + 1) (Some (quota_error, analyzeError quota_error)) ?w1 =
      executeRequest_loop ?env ?req 2 (Some (quota_error, analyzeError quota_error))
        (two_key_world\<lparr>sdkCalls := 1, randomCalls := 1,
                    events := [SdkRequest ''client-1'', Delay 1500]\<rparr>)"
    by (simp only: w1 one_add_one)
  also note second
  finally show ?thesis .
qed

text \<open>
  Claim C7. For every attempt number, the delay the \<^verbatim>\<open>catch\<close> block sleeps before the next
  attempt is \<open>min (base * 2 ^ (attempt - 1) + jitter) 10000\<close> milliseconds, with base 2000
  for a network-classified error and 1000 otherwise and the jitter \<^verbatim>\<open>Math.random() * 1000\<close>;
  it never exceeds 10000, and without jitter it does not decrease when the attempt number
  grows.
\<close>

theorem backoffDelay_bounds:
  "backoffDelay networkError attempt jitter =
     min ((if networkError then 2000 else 1000) * 2 ^ (attempt - 1) + jitter) 10000
   \<and> backoffDelay networkError attempt jitter \<le> 10000
   \<and> (a \<le> b \<longrightarrow> backoffDelay networkError a 0 \<le> backoffDelay networkError b 0)
   \<and> (attempt \<noteq> maxRetries env \<longrightarrow>
        catch_lastAttemptOrBackoff env attempt cki error errorInfo w =
          (Continue, w\<lparr>randomCalls := randomCalls w + 1,
                       events := events w @
                         [Delay (backoffDelay (isNetworkError errorInfo) attempt
                                   (mathRandom env (randomCalls w) * 1000))]\<rparr>))"
proof -
  have mono: "backoffDelay networkError a 0 \<le> backoffDelay networkError b 0" if "a \<le> b"
  proof -
    define base :: real where "base = (if networkError then 2000 else 1000)"
    from that have "(2::real) ^ (a - 1) \<le> 2 ^ (b - 1)"
      by (intro power_increasing) simp_all
    moreover have "0 \<le> base" by (simp add: base_def)
    ultimately have "base * 2 ^ (a - 1) + 0 \<le> base * 2 ^ (b - 1) + 0"
      by (simp add: mult_left_mono)
    then have "min (base * 2 ^ (a - 1) + 0) 10000 \<le> min (base * 2 ^ (b - 1) + 0) 10000"
      by (rule min.mono) simp
    then show ?thesis by (simp add: backoffDelay_def Let_def base_def)
  qed
  show ?thesis
    using mono catch_backoff [of attempt env cki error errorInfo w]
    by (simp add: backoffDelay_def Let_def)
qed
theorem backoffDelay_bounds_witness:
  "backoffDelay True 3 250 = 8250 \<and> backoffDelay False 5 999 = 10000
   \<and> backoffDelay True 1 0 \<le> backoffDelay True 2 0
   \<and> catch_lastAttemptOrBackoff (failing_env quota_error 5) 1 None quota_error
        (analyzeError quota_error) two_key_world =
      (Continue, two_key_world\<lparr>randomCalls := 1, events := [Delay 1500]\<rparr>)"
proof -
  have a: "backoffDelay True 3 250 = min ((if True then 2000 else 1000) * 2 ^ (3 - 1) + 250) 10000"
    using backoffDelay_bounds [of True 3 250] by blast
  have b: "backoffDelay False 5 999 = min ((if False then 2000 else 1000) * 2 ^ (5 - 1) + 999) 10000"
    using backoffDelay_bounds [of False 5 999] by blast
  have c: "backoffDelay True 1 0 \<le> backoffDelay True 2 0"
    using backoffDelay_bounds [of True _ _ 1 2] by simp
  have "(1::nat) \<noteq> maxRetries (failing_env quota_error 5)" by (simp add: failing_env_def)
  with backoffDelay_bounds [of False 1 0 1 1 "failing_env quota_error 5" None quota_error
      "analyzeError quota_error" two_key_world]
  have "catch_lastAttemptOrBackoff (failing_env quota_error 5) 1 None quota_error
        (analyzeError quota_error) two_key_world =
      (Continue, two_key_world\<lparr>randomCalls := randomCalls two_key_world + 1,
         events := events two_key_world @
           [Delay (backoffDelay (isNetworkError (analyzeError quota_error)) 1
              (mathRandom (failing_env quota_error 5) (randomCalls two_key_world) * 1000))]\<rparr>)"
    by blast
  then have d: "catch_lastAttemptOrBackoff (failing_env quota_error 5) 1 None quota_error
        (analyzeError quota_error) two_key_world =
      (Continue, two_key_world\<lparr>randomCalls := 1, events := [Delay 1500]\<rparr>)"
    by (simp add: analyzeError_flags quota_type two_key_world_def failing_env_def backoffDelay_def)
  from a b c d show ?thesis by simp
qed

section \<open>Properties of the MCQ detection\<close>

text \<open>
  The scenario prompt is evaluated against the patterns by rewriting. The tables below give
  the prompt's length and its character at every index, and the values of the character
  functions on the characters that occur in the prompt and in the patterns.
\<close>

lemma prompt_length: "length stable_sort_prompt = 76"
  by (simp add: stable_sort_prompt_def)

lemma prompt_nth:
  "stable_sort_prompt ! 0 = CHR ''W''"
  "stable_sort_prompt ! Suc 0 = CHR ''h''"
  "stable_sort_prompt ! 2 = CHR ''i''"
  "stable_sort_prompt ! 3 = CHR ''c''"
  "stable_sort_prompt ! 4 = CHR ''h''"
  "stable_sort_prompt ! 5 = CHR '' ''"
  "stable_sort_prompt ! 6 = CHR ''i''"
  "stable_sort_prompt ! 7 = CHR ''s''"
  "stable_sort_prompt ! 8 = CHR '' ''"
  "stable_sort_prompt ! 9 = CHR ''a''"
  "stable_sort_prompt ! 10 = CHR '' ''"
  "stable_sort_prompt ! 11 = CHR ''s''"
  "stable_sort_prompt ! 12 = CHR ''t''"
  "stable_sort_prompt ! 13 = CHR ''a''"
  "stable_sort_prompt ! 14 = CHR ''b''"
  "stable_sort_prompt ! 15 = CHR ''l''"
  "stable_sort_prompt ! 16 = CHR ''e''"
  "stable_sort_prompt ! 17 = CHR '' ''"
  "stable_sort_prompt ! 18 = CHR ''s''"
  "stable_sort_prompt ! 19 = CHR ''o''"
  "stable_sort_prompt ! 20 = CHR ''r''"
  "stable_sort_prompt ! 21 = CHR ''t''"
  "stable_sort_prompt ! 22 = CHR ''?''"
  "stable_sort_prompt ! 23 = CHR '' ''"
  "stable_sort_prompt ! 24 = CHR ''A''"
  "stable_sort_prompt ! 25 = CHR '')''"
  "stable_sort_prompt ! 26 = CHR '' ''"
  "stable_sort_prompt ! 27 = CHR ''Q''"
  "stable_sort_prompt ! 28 = CHR ''u''"
  "stable_sort_prompt ! 29 = CHR ''i''"
  "stable_sort_prompt ! 30 = CHR ''c''"
  "stable_sort_prompt ! 31 = CHR ''k''"
  "stable_sort_prompt ! 32 = CHR ''S''"
  "stable_sort_prompt ! 33 = CHR ''o''"
  "stable_sort_prompt ! 34 = CHR ''r''"
  "stable_sort_prompt ! 35 = CHR ''t''"
  "stable_sort_prompt ! 36 = CHR '' ''"
  "stable_sort_prompt ! 37 = CHR ''B''"
  "stable_sort_prompt ! 38 = CHR '')''"
  "stable_sort_prompt ! 39 = CHR '' ''"
  "stable_sort_prompt ! 40 = CHR ''M''"
  "stable_sort_prompt ! 41 = CHR ''e''"
  "stable_sort_prompt ! 42 = CHR ''r''"
  "stable_sort_prompt ! 43 = CHR ''g''"
  "stable_sort_prompt ! 44 = CHR ''e''"
  "stable_sort_prompt ! 45 = CHR ''S''"
  "stable_sort_prompt ! 46 = CHR ''o''"
  "stable_sort_prompt ! 47 = CHR ''r''"
  "stable_sort_prompt ! 48 = CHR ''t''"
  "stable_sort_prompt ! 49 = CHR '' ''"
  "stable_sort_prompt ! 50 = CHR ''C''"
  "stable_sort_prompt ! 51 = CHR '')''"
  "stable_sort_prompt ! 52 = CHR '' ''"
  "stable_sort_prompt ! 53 = CHR ''H''"
  "stable_sort_prompt ! 54 = CHR ''e''"
  "stable_sort_prompt ! 55 = CHR ''a''"
  "stable_sort_prompt ! 56 = CHR ''p''"
  "stable_sort_prompt ! 57 = CHR ''S''"
  "stable_sort_prompt ! 58 = CHR ''o''"
  "stable_sort_prompt ! 59 = CHR ''r''"
  "stable_sort_prompt ! 60 = CHR ''t''"
  "stable_sort_prompt ! 61 = CHR '' ''"
  "stable_sort_prompt ! 62 = CHR ''D''"
  "stable_sort_prompt ! 63 = CHR '')''"
  "stable_sort_prompt ! 64 = CHR '' ''"
  "stable_sort_prompt ! 65 = CHR ''B''"
  "stable_sort_prompt ! 66 = CHR ''u''"
  "stable_sort_prompt ! 67 = CHR ''b''"
  "stable_sort_prompt ! 68 = CHR ''b''"
  "stable_sort_prompt ! 69 = CHR ''l''"
  "stable_sort_prompt ! 70 = CHR ''e''"
  "stable_sort_prompt ! 71 = CHR '' ''"
  "stable_sort_prompt ! 72 = CHR ''S''"
  "stable_sort_prompt ! 73 = CHR ''o''"
  "stable_sort_prompt ! 74 = CHR ''r''"
  "stable_sort_prompt ! 75 = CHR ''t''"
  by (simp_all add: stable_sort_prompt_def)

lemma asciiUpper_table:
  "asciiUpper CHR '' '' = CHR '' ''"
  "asciiUpper CHR ''#'' = CHR ''#''"
  "asciiUpper CHR ''('' = CHR ''(''"
  "asciiUpper CHR '')'' = CHR '')''"
  "asciiUpper CHR ''.'' = CHR ''.''"
  "asciiUpper CHR ''?'' = CHR ''?''"
  "asciiUpper CHR ''A'' = CHR ''A''"
  "asciiUpper CHR ''B'' = CHR ''B''"
  "asciiUpper CHR ''C'' = CHR ''C''"
  "asciiUpper CHR ''D'' = CHR ''D''"
  "asciiUpper CHR ''E'' = CHR ''E''"
  "asciiUpper CHR ''F'' = CHR ''F''"
  "asciiUpper CHR ''G'' = CHR ''G''"
  "asciiUpper CHR ''H'' = CHR ''H''"
  "asciiUpper CHR ''I'' = CHR ''I''"
  "asciiUpper CHR ''K'' = CHR ''K''"
  "asciiUpper CHR ''L'' = CHR ''L''"
  "asciiUpper CHR ''M'' = CHR ''M''"
  "asciiUpper CHR ''N'' = CHR ''N''"
  "asciiUpper CHR ''O'' = CHR ''O''"
  "asciiUpper CHR ''P'' = CHR ''P''"
  "asciiUpper CHR ''Q'' = CHR ''Q''"
  "asciiUpper CHR ''R'' = CHR ''R''"
  "asciiUpper CHR ''S'' = CHR ''S''"
  "asciiUpper CHR ''T'' = CHR ''T''"
  "asciiUpper CHR ''U'' = CHR ''U''"
  "asciiUpper CHR ''V'' = CHR ''V''"
  "asciiUpper CHR ''W'' = CHR ''W''"
  "asciiUpper CHR ''Y'' = CHR ''Y''"
  "asciiUpper CHR ''`'' = CHR ''`''"
  "asciiUpper CHR ''a'' = CHR ''A''"
  "asciiUpper CHR ''b'' = CHR ''B''"
  "asciiUpper CHR ''c'' = CHR ''C''"
  "asciiUpper CHR ''d'' = CHR ''D''"
  "asciiUpper CHR ''e'' = CHR ''E''"
  "asciiUpper CHR ''f'' = CHR ''F''"
  "asciiUpper CHR ''g'' = CHR ''G''"
  "asciiUpper CHR ''h'' = CHR ''H''"
  "asciiUpper CHR ''i'' = CHR ''I''"
  "asciiUpper CHR ''k'' = CHR ''K''"
  "asciiUpper CHR ''l'' = CHR ''L''"
  "asciiUpper CHR ''m'' = CHR ''M''"
  "asciiUpper CHR ''n'' = CHR ''N''"
  "asciiUpper CHR ''o'' = CHR ''O''"
  "asciiUpper CHR ''p'' = CHR ''P''"
  "asciiUpper CHR ''q'' = CHR ''Q''"
  "asciiUpper CHR ''r'' = CHR ''R''"
  "asciiUpper CHR ''s'' = CHR ''S''"
  "asciiUpper CHR ''t'' = CHR ''T''"
  "asciiUpper CHR ''u'' = CHR ''U''"
  "asciiUpper CHR ''v'' = CHR ''V''"
  "asciiUpper CHR ''w'' = CHR ''W''"
  "asciiUpper CHR ''y'' = CHR ''Y''"
  "asciiUpper CHR ''{'' = CHR ''{''"
  by (simp_all add: asciiUpper_def)

lemma asciiLower_table:
  "asciiLower CHR '' '' = CHR '' ''"
  "asciiLower CHR ''#'' = CHR ''#''"
  "asciiLower CHR ''('' = CHR ''(''"
  "asciiLower CHR '')'' = CHR '')''"
  "asciiLower CHR ''.'' = CHR ''.''"
  "asciiLower CHR ''?'' = CHR ''?''"
  "asciiLower CHR ''A'' = CHR ''a''"
  "asciiLower CHR ''B'' = CHR ''b''"
  "asciiLower CHR ''C'' = CHR ''c''"
  "asciiLower CHR ''D'' = CHR ''d''"
  "asciiLower CHR ''E'' = CHR ''e''"
  "asciiLower CHR ''F'' = CHR ''f''"
  "asciiLower CHR ''G'' = CHR ''g''"
  "asciiLower CHR ''H'' = CHR ''h''"
  "asciiLower CHR ''I'' = CHR ''i''"
  "asciiLower CHR ''K'' = CHR ''k''"
  "asciiLower CHR ''L'' = CHR ''l''"
  "asciiLower CHR ''M'' = CHR ''m''"
  "asciiLower CHR ''N'' = CHR ''n''"
  "asciiLower CHR ''O'' = CHR ''o''"
  "asciiLower CHR ''P'' = CHR ''p''"
  "asciiLower CHR ''Q'' = CHR ''q''"
  "asciiLower CHR ''R'' = CHR ''r''"
  "asciiLower CHR ''S'' = CHR ''s''"
  "asciiLower CHR ''T'' = CHR ''t''"
  "asciiLower CHR ''U'' = CHR ''u''"
  "asciiLower CHR ''V'' = CHR ''v''"
  "asciiLower CHR ''W'' = CHR ''w''"
  "asciiLower CHR ''Y'' = CHR ''y''"
  "asciiLower CHR ''`'' = CHR ''`''"
  "asciiLower CHR ''a'' = CHR ''a''"
  "asciiLower CHR ''b'' = CHR ''b''"
  "asciiLower CHR ''c'' = CHR ''c''"
  "asciiLower CHR ''d'' = CHR ''d''"
  "asciiLower CHR ''e'' = CHR ''e''"
  "asciiLower CHR ''f'' = CHR ''f''"
  "asciiLower CHR ''g'' = CHR ''g''"
  "asciiLower CHR ''h'' = CHR ''h''"
  "asciiLower CHR ''i'' = CHR ''i''"
  "asciiLower CHR ''k'' = CHR ''k''"
  "asciiLower CHR ''l'' = CHR ''l''"
  "asciiLower CHR ''m'' = CHR ''m''"
  "asciiLower CHR ''n'' = CHR ''n''"
  "asciiLower CHR ''o'' = CHR ''o''"
  "asciiLower CHR ''p'' = CHR ''p''"
  "asciiLower CHR ''q'' = CHR ''q''"
  "asciiLower CHR ''r'' = CHR ''r''"
  "asciiLower CHR ''s'' = CHR ''s''"
  "asciiLower CHR ''t'' = CHR ''t''"
  "asciiLower CHR ''u'' = CHR ''u''"
  "asciiLower CHR ''v'' = CHR ''v''"
  "asciiLower CHR ''w'' = CHR ''w''"
  "asciiLower CHR ''y'' = CHR ''y''"
  "asciiLower CHR ''{'' = CHR ''{''"
  by (simp_all add: asciiLower_def)

lemma of_char_table:
  "of_char CHR '' '' = (32::nat)"
  "of_char CHR ''#'' = (35::nat)"
  "of_char CHR ''('' = (40::nat)"
  "of_char CHR '')'' = (41::nat)"
  "of_char CHR ''.'' = (46::nat)"
  "of_char CHR ''?'' = (63::nat)"
  "of_char CHR ''A'' = (65::nat)"
  "of_char CHR ''B'' = (66::nat)"
  "of_char CHR ''C'' = (67::nat)"
  "of_char CHR ''D'' = (68::nat)"
  "of_char CHR ''E'' = (69::nat)"
  "of_char CHR ''F'' = (70::nat)"
  "of_char CHR ''G'' = (71::nat)"
  "of_char CHR ''H'' = (72::nat)"
  "of_char CHR ''I'' = (73::nat)"
  "of_char CHR ''K'' = (75::nat)"
  "of_char CHR ''L'' = (76::nat)"
  "of_char CHR ''M'' = (77::nat)"
  "of_char CHR ''N'' = (78::nat)"
  "of_char CHR ''O'' = (79::nat)"
  "of_char CHR ''P'' = (80::nat)"
  "of_char CHR ''Q'' = (81::nat)"
  "of_char CHR ''R'' = (82::nat)"
  "of_char CHR ''S'' = (83::nat)"
  "of_char CHR ''T'' = (84::nat)"
  "of_char CHR ''U'' = (85::nat)"
  "of_char CHR ''V'' = (86::nat)"
  "of_char CHR ''W'' = (87::nat)"
  "of_char CHR ''Y'' = (89::nat)"
  "of_char CHR ''`'' = (96::nat)"
  "of_char CHR ''a'' = (97::nat)"
  "of_char CHR ''b'' = (98::nat)"
  "of_char CHR ''c'' = (99::nat)"
  "of_char CHR ''d'' = (100::nat)"
  "of_char CHR ''e'' = (101::nat)"
  "of_char CHR ''f'' = (102::nat)"
  "of_char CHR ''g'' = (103::nat)"
  "of_char CHR ''h'' = (104::nat)"
  "of_char CHR ''i'' = (105::nat)"
  "of_char CHR ''k'' = (107::nat)"
  "of_char CHR ''l'' = (108::nat)"
  "of_char CHR ''m'' = (109::nat)"
  "of_char CHR ''n'' = (110::nat)"
  "of_char CHR ''o'' = (111::nat)"
  "of_char CHR ''p'' = (112::nat)"
  "of_char CHR ''q'' = (113::nat)"
  "of_char CHR ''r'' = (114::nat)"
  "of_char CHR ''s'' = (115::nat)"
  "of_char CHR ''t'' = (116::nat)"
  "of_char CHR ''u'' = (117::nat)"
  "of_char CHR ''v'' = (118::nat)"
  "of_char CHR ''w'' = (119::nat)"
  "of_char CHR ''y'' = (121::nat)"
  "of_char CHR ''{'' = (123::nat)"
  by simp_all

lemma isWhiteSpace_table:
  "isWhiteSpace CHR '' '' = True"
  "isWhiteSpace CHR ''#'' = False"
  "isWhiteSpace CHR ''('' = False"
  "isWhiteSpace CHR '')'' = False"
  "isWhiteSpace CHR ''.'' = False"
  "isWhiteSpace CHR ''?'' = False"
  "isWhiteSpace CHR ''A'' = False"
  "isWhiteSpace CHR ''B'' = False"
  "isWhiteSpace CHR ''C'' = False"
  "isWhiteSpace CHR ''D'' = False"
  "isWhiteSpace CHR ''E'' = False"
  "isWhiteSpace CHR ''F'' = False"
  "isWhiteSpace CHR ''G'' = False"
  "isWhiteSpace CHR ''H'' = False"
  "isWhiteSpace CHR ''I'' = False"
  "isWhiteSpace CHR ''K'' = False"
  "isWhiteSpace CHR ''L'' = False"
  "isWhiteSpace CHR ''M'' = False"
  "isWhiteSpace CHR ''N'' = False"
  "isWhiteSpace CHR ''O'' = False"
  "isWhiteSpace CHR ''P'' = False"
  "isWhiteSpace CHR ''Q'' = False"
  "isWhiteSpace CHR ''R'' = False"
  "isWhiteSpace CHR ''S'' = False"
  "isWhiteSpace CHR ''T'' = False"
  "isWhiteSpace CHR ''U'' = False"
  "isWhiteSpace CHR ''V'' = False"
  "isWhiteSpace CHR ''W'' = False"
  "isWhiteSpace CHR ''Y'' = False"
  "isWhiteSpace CHR ''`'' = False"
  "isWhiteSpace CHR ''a'' = False"
  "isWhiteSpace CHR ''b'' = False"
  "isWhiteSpace CHR ''c'' = False"
  "isWhiteSpace CHR ''d'' = False"
  "isWhiteSpace CHR ''e'' = False"
  "isWhiteSpace CHR ''f'' = False"
  "isWhiteSpace CHR ''g'' = False"
  "isWhiteSpace CHR ''h'' = False"
  "isWhiteSpace CHR ''i'' = False"
  "isWhiteSpace CHR ''k'' = False"
  "isWhiteSpace CHR ''l'' = False"
  "isWhiteSpace CHR ''m'' = False"
  "isWhiteSpace CHR ''n'' = False"
  "isWhiteSpace CHR ''o'' = False"
  "isWhiteSpace CHR ''p'' = False"
  "isWhiteSpace CHR ''q'' = False"
  "isWhiteSpace CHR ''r'' = False"
  "isWhiteSpace CHR ''s'' = False"
  "isWhiteSpace CHR ''t'' = False"
  "isWhiteSpace CHR ''u'' = False"
  "isWhiteSpace CHR ''v'' = False"
  "isWhiteSpace CHR ''w'' = False"
  "isWhiteSpace CHR ''y'' = False"
  "isWhiteSpace CHR ''{'' = False"
  by (simp_all add: isWhiteSpace_def)

lemma isLineTerminator_table:
  "isLineTerminator CHR '' '' = False"
  "isLineTerminator CHR ''#'' = False"
  "isLineTerminator CHR ''('' = False"
  "isLineTerminator CHR '')'' = False"
  "isLineTerminator CHR ''.'' = False"
  "isLineTerminator CHR ''?'' = False"
  "isLineTerminator CHR ''A'' = False"
  "isLineTerminator CHR ''B'' = False"
  "isLineTerminator CHR ''C'' = False"
  "isLineTerminator CHR ''D'' = False"
  "isLineTerminator CHR ''E'' = False"
  "isLineTerminator CHR ''F'' = False"
  "isLineTerminator CHR ''G'' = False"
  "isLineTerminator CHR ''H'' = False"
  "isLineTerminator CHR ''I'' = False"
  "isLineTerminator CHR ''K'' = False"
  "isLineTerminator CHR ''L'' = False"
  "isLineTerminator CHR ''M'' = False"
  "isLineTerminator CHR ''N'' = False"
  "isLineTerminator CHR ''O'' = False"
  "isLineTerminator CHR ''P'' = False"
  "isLineTerminator CHR ''Q'' = False"
  "isLineTerminator CHR ''R'' = False"
  "isLineTerminator CHR ''S'' = False"
  "isLineTerminator CHR ''T'' = False"
  "isLineTerminator CHR ''U'' = False"
  "isLineTerminator CHR ''V'' = False"
  "isLineTerminator CHR ''W'' = False"
  "isLineTerminator CHR ''Y'' = False"
  "isLineTerminator CHR ''`'' = False"
  "isLineTerminator CHR ''a'' = False"
  "isLineTerminator CHR ''b'' = False"
  "isLineTerminator CHR ''c'' = False"
  "isLineTerminator CHR ''d'' = False"
  "isLineTerminator CHR ''e'' = False"
  "isLineTerminator CHR ''f'' = False"
  "isLineTerminator CHR ''g'' = False"
  "isLineTerminator CHR ''h'' = False"
  "isLineTerminator CHR ''i'' = False"
  "isLineTerminator CHR ''k'' = False"
  "isLineTerminator CHR ''l'' = False"
  "isLineTerminator CHR ''m'' = False"
  "isLineTerminator CHR ''n'' = False"
  "isLineTerminator CHR ''o'' = False"
  "isLineTerminator CHR ''p'' = False"
  "isLineTerminator CHR ''q'' = False"
  "isLineTerminator CHR ''r'' = False"
  "isLineTerminator CHR ''s'' = False"
  "isLineTerminator CHR ''t'' = False"
  "isLineTerminator CHR ''u'' = False"
  "isLineTerminator CHR ''v'' = False"
  "isLineTerminator CHR ''w'' = False"
  "isLineTerminator CHR ''y'' = False"
  "isLineTerminator CHR ''{'' = False"
  by (simp_all add: isLineTerminator_def)

lemma iterate_upto_numeral:
  "iterate_upto (numeral k) f ps =
     (if ps = [] then [] else ps @ iterate_upto (pred_numeral k) f (f ps))"
  by (simp add: numeral_eq_Suc)

lemma index_two: "Suc (Suc 0) = 2" "Suc 0 + 1 = 2"
  by simp_all

lemmas regex_eval =
  regexp_test_def List.map_filter_simps consume_char_def at_line_start_def same_char_def
  in_range_def whitespace_def wordChar_def anyChar_def optionLetter_def parenOrDot_def
  prompt_length prompt_nth upt_rec iterate_upto_numeral index_two
  asciiUpper_table asciiLower_table of_char_table isWhiteSpace_table isLineTerminator_table

lemma coding_indicators_prompt:
  "map (\<lambda>pattern. regexp_test pattern stable_sort_prompt) codingProblemIndicators =
     [False, False, False, False, False, False, False, False, False]"
  by (simp add: codingProblemIndicators_def regex_eval)

lemma mcq_patterns_prompt:
  "map (\<lambda>pattern. regexp_test pattern stable_sort_prompt) mcqPatterns =
     [False, False, True, False]"
  by (simp add: mcqPatterns_def regex_eval)

lemma not_coding_problem: "\<not> isLikelyCodingProblem stable_sort_prompt"
  using coding_indicators_prompt
  by (simp add: isLikelyCodingProblem_def list_ex_iff codingProblemIndicators_def)

lemma one_pattern_matches: "length (mcqMatches stable_sort_prompt) = 1"
  using mcq_patterns_prompt by (simp add: mcqMatches_def mcqPatterns_def)

lemma no_code_blocks: "\<not> hasCodeBlocks ''Answer: B''"
  by (simp add: hasCodeBlocks_def regexp_test_def List.map_filter_simps same_char_def
      upt_rec)

text \<open>
  Claim C5, amended. For the prompt
  \<^verbatim>\<open>Which is a stable sort? A) QuickSort B) MergeSort C) HeapSort D) Bubble Sort\<close> and
  the raw answer \<^verbatim>\<open>Answer: B\<close>, exactly one of the four option-detection patterns matches
  (the third, a letter with \<^verbatim>\<open>)\<close> followed by a word; the options are not at the start
  of a line and the prompt has none of the words option, answer, choice or letter), so
  \<open>extractMcqAnswer\<close> does not classify the prompt as a multiple-choice question and
  returns the answer \<^verbatim>\<open>Answer: B\<close> unchanged, whatever the active skill.
\<close>

theorem extractMcqAnswer_stable_sort_unchanged:
  "map (\<lambda>pattern. regexp_test pattern stable_sort_prompt) mcqPatterns = [False, False, True, False]
   \<and> extractMcqAnswer (Text ''Answer: B'') (Text stable_sort_prompt) activeSkill =
       Returns (Text ''Answer: B'')"
proof -
  have "stable_sort_prompt \<noteq> []" by (simp add: stable_sort_prompt_def)
  moreover have "\<not> isMcq stable_sort_prompt"
    by (simp add: isMcq_def one_pattern_matches)
  ultimately show ?thesis
    using mcq_patterns_prompt not_coding_problem no_code_blocks
    by (simp add: extractMcqAnswer_def)
qed

text \<open>
  The claim as stated fails: fewer than two patterns match the prompt, it is not classified
  as a multiple-choice question, and the response is the raw answer, which does not begin
  with \<^verbatim>\<open>## Answer: B\<close>.
\<close>

theorem extractMcqAnswer_stable_sort_counterexample:
  "length (mcqMatches stable_sort_prompt) = 1 \<and> \<not> isMcq stable_sort_prompt
   \<and> extractMcqAnswer (Text ''Answer: B'') (Text stable_sort_prompt) Null =
       Returns (Text ''Answer: B'')"
proof -
  have "stable_sort_prompt \<noteq> []" by (simp add: stable_sort_prompt_def)
  moreover have "\<not> isMcq stable_sort_prompt"
    by (simp add: isMcq_def one_pattern_matches)
  ultimately show ?thesis
    using one_pattern_matches not_coding_problem by (simp add: extractMcqAnswer_def)
qed

text \<open>
  Claim C10. Whenever the original prompt text or the answer text is \<^verbatim>\<open>null\<close>,
  \<^verbatim>\<open>undefined\<close> or the empty string, \<open>extractMcqAnswer\<close> returns its \<open>response\<close> argument
  as it is, at its first return, before any detection.
\<close>

theorem extractMcqAnswer_falsy_identity:
  assumes "originalText = Undefined \<or> originalText = Null \<or> originalText = Text [] \<or>
           response = Undefined \<or> response = Null \<or> response = Text []"
  shows "extractMcqAnswer response originalText activeSkill = Returns response"
  using assms by (auto simp: extractMcqAnswer_def split: js_text.splits)

theorem extractMcqAnswer_falsy_identity_witness:
  "extractMcqAnswer (Text ''Answer: B'') Null (Text ''dsa'') = Returns (Text ''Answer: B'')
   \<and> extractMcqAnswer (Text []) (Text stable_sort_prompt) Null = Returns (Text [])
   \<and> extractMcqAnswer Undefined (Text stable_sort_prompt) Undefined = Returns Undefined"
  using extractMcqAnswer_falsy_identity [of Null "Text ''Answer: B''" "Text ''dsa''"]
    extractMcqAnswer_falsy_identity [of "Text stable_sort_prompt" "Text []" Null]
    extractMcqAnswer_falsy_identity [of "Text stable_sort_prompt" Undefined Undefined]
  by simp

end
